theory Spec2Isabelle
  imports Complex_Main
begin

section \<open>Single-precision values\<close>

text \<open>
  The controller computes in C \<^verbatim>\<open>float\<close>. A value is either a finite number or one of
  the three IEEE-754 specials. Finite arithmetic is exact here (rounding and overflow of
  finite results are not in the model, and there is one zero, +0); the specials follow
  IEEE-754: anything with NaN is NaN, \<open>inf - inf\<close>, \<open>0 * inf\<close>, \<open>0 / 0\<close> and \<open>inf / inf\<close> are
  NaN, \<open>x / 0\<close> is an infinity of the sign of \<open>x\<close>, and every comparison with NaN is false.
\<close>

datatype float = Fin real | PInf | NInf | NaN

fun PX4_ISFINITE :: "float \<Rightarrow> bool" where
  "PX4_ISFINITE (Fin x) = True"
| "PX4_ISFINITE PInf = False"
| "PX4_ISFINITE NInf = False"
| "PX4_ISFINITE NaN = False"

fun fneg :: "float \<Rightarrow> float" where
  "fneg (Fin x) = Fin (- x)"
| "fneg PInf = NInf"
| "fneg NInf = PInf"
| "fneg NaN = NaN"

fun fadd :: "float \<Rightarrow> float \<Rightarrow> float" where
  "fadd (Fin x) (Fin y) = Fin (x + y)"
| "fadd NaN b = NaN"
| "fadd a NaN = NaN"
| "fadd PInf NInf = NaN"
| "fadd NInf PInf = NaN"
| "fadd PInf b = PInf"
| "fadd NInf b = NInf"
| "fadd a PInf = PInf"
| "fadd a NInf = NInf"

definition fsub :: "float \<Rightarrow> float \<Rightarrow> float" where
  "fsub a b = fadd a (fneg b)"

text \<open>An infinity of the given sign: \<open>inf_of True\<close> is \<open>+inf\<close>.\<close>

definition inf_of :: "bool \<Rightarrow> float" where
  "inf_of pos = (if pos then PInf else NInf)"

fun fmul :: "float \<Rightarrow> float \<Rightarrow> float" where
  "fmul (Fin x) (Fin y) = Fin (x * y)"
| "fmul NaN b = NaN"
| "fmul a NaN = NaN"
| "fmul PInf (Fin y) = (if y = 0 then NaN else inf_of (0 < y))"
| "fmul NInf (Fin y) = (if y = 0 then NaN else inf_of (y < 0))"
| "fmul (Fin x) PInf = (if x = 0 then NaN else inf_of (0 < x))"
| "fmul (Fin x) NInf = (if x = 0 then NaN else inf_of (x < 0))"
| "fmul PInf PInf = PInf"
| "fmul PInf NInf = NInf"
| "fmul NInf PInf = NInf"
| "fmul NInf NInf = PInf"

fun fdiv :: "float \<Rightarrow> float \<Rightarrow> float" where
  "fdiv (Fin x) (Fin y) =
     (if y = 0 then (if x = 0 then NaN else inf_of (0 < x)) else Fin (x / y))"
| "fdiv NaN b = NaN"
| "fdiv a NaN = NaN"
| "fdiv (Fin x) PInf = Fin 0"
| "fdiv (Fin x) NInf = Fin 0"
| "fdiv PInf (Fin y) = inf_of (0 \<le> y)"
| "fdiv NInf (Fin y) = inf_of (y < 0)"
| "fdiv PInf PInf = NaN"
| "fdiv PInf NInf = NaN"
| "fdiv NInf PInf = NaN"
| "fdiv NInf NInf = NaN"

text \<open>The C comparison \<^verbatim>\<open>a < b\<close>; \<^verbatim>\<open>a > b\<close> is \<open>flt b a\<close>.\<close>

fun flt :: "float \<Rightarrow> float \<Rightarrow> bool" where
  "flt (Fin x) (Fin y) = (x < y)"
| "flt NaN b = False"
| "flt a NaN = False"
| "flt NInf NInf = False"
| "flt NInf b = True"
| "flt a NInf = False"
| "flt PInf b = False"
| "flt a PInf = True"

definition fgt :: "float \<Rightarrow> float \<Rightarrow> bool" where
  "fgt a b = flt b a"

text \<open>The C comparison \<^verbatim>\<open>a >= b\<close>.\<close>

fun fge :: "float \<Rightarrow> float \<Rightarrow> bool" where
  "fge (Fin x) (Fin y) = (y \<le> x)"
| "fge NaN b = False"
| "fge a NaN = False"
| "fge PInf b = True"
| "fge a NInf = True"
| "fge NInf b = False"
| "fge a PInf = False"

fun fabsf :: "float \<Rightarrow> float" where
  "fabsf (Fin x) = Fin \<bar>x\<bar>"
| "fabsf PInf = PInf"
| "fabsf NInf = PInf"
| "fabsf NaN = NaN"

text \<open>C99 \<^verbatim>\<open>fminf\<close> and \<^verbatim>\<open>fmaxf\<close>: when one argument is NaN the other is returned.\<close>

definition fminf :: "float \<Rightarrow> float \<Rightarrow> float" where
  "fminf a b = (if a = NaN then b else if b = NaN then a else if flt b a then b else a)"

definition fmaxf :: "float \<Rightarrow> float \<Rightarrow> float" where
  "fmaxf a b = (if a = NaN then b else if b = NaN then a else if flt a b then b else a)"

section \<open>Landing gear\<close>

text \<open>
  The positions of the pilot's gear switch (\<^verbatim>\<open>manual_control_setpoint_s::SWITCH_POS_*\<close>)
  and the two logical gear states (\<^verbatim>\<open>landing_gear_s::GEAR_UP\<close>, \<^verbatim>\<open>GEAR_DOWN\<close>). Their
  numeric values are in the generated message headers.
\<close>

datatype switch_pos = SWITCH_POS_NONE | SWITCH_POS_ON | SWITCH_POS_MIDDLE | SWITCH_POS_OFF

datatype gear = GEAR_DOWN | GEAR_UP

text \<open>
  \<^verbatim>\<open>get_landing_gear_state\<close> reads \<^verbatim>\<open>_vehicle_land_detected.landed\<close> and
  \<^verbatim>\<open>_manual_control_sp.gear_switch\<close>, updates \<^verbatim>\<open>_gear_state_initialized\<close> and returns the
  gear state. The pair returned is (new \<^verbatim>\<open>_gear_state_initialized\<close>, result).
\<close>

definition get_landing_gear_state :: "bool \<Rightarrow> bool \<Rightarrow> switch_pos \<Rightarrow> bool \<times> gear" where
  "get_landing_gear_state gear_state_initialized landed gear_switch =
     (let init1 = (if landed then False else gear_state_initialized) in
      if gear_switch = SWITCH_POS_ON \<and> init1 then (init1, GEAR_UP)
      else if gear_switch = SWITCH_POS_OFF then (True, GEAR_DOWN)
      else (init1, GEAR_DOWN))"

text \<open>
  Successive evaluations: each element of the input list is what one call reads,
  (\<^verbatim>\<open>landed\<close>, \<^verbatim>\<open>gear_switch\<close>); the result lists what each call returned.
\<close>

fun gear_run :: "bool \<Rightarrow> (bool \<times> switch_pos) list \<Rightarrow> gear list" where
  "gear_run init [] = []"
| "gear_run init ((landed, sw) # rest) =
     (case get_landing_gear_state init landed sw of
        (init', g) \<Rightarrow> g # gear_run init' rest)"

section \<open>Vectors and matrices\<close>

text \<open>
  Modelled from the spec: the matrix library (\<^verbatim>\<open>matrix::Matrix\<close>, \<^verbatim>\<open>Vector3f\<close>, \<^verbatim>\<open>Dcmf\<close>) is
  not part of the source file. A vector is indexed from 0, a matrix by (row, column);
  the sizes are arguments of the operations, entries outside them are never read, and
  every result is zero outside its size. The product is the usual one, each entry
  accumulated from zero over the columns in increasing order. The state-space vectors
  are one-column matrices that the source addresses as \<^verbatim>\<open>v(0,i)\<close>: element \<open>i\<close> of the
  vector.
\<close>

type_synonym vec = "nat \<Rightarrow> float"
type_synonym mat = "nat \<times> nat \<Rightarrow> float"

definition setZero_vec :: "vec" where
  "setZero_vec = (\<lambda>i. Fin 0)"

definition setZero_mat :: "mat" where
  "setZero_mat = (\<lambda>p. Fin 0)"

definition row_dot :: "nat \<Rightarrow> mat \<Rightarrow> nat \<Rightarrow> vec \<Rightarrow> float" where
  "row_dot n A i v = foldl (\<lambda>acc j. fadd acc (fmul (A (i, j)) (v j))) (Fin 0) [0..<n]"

definition mat_vec :: "nat \<Rightarrow> nat \<Rightarrow> mat \<Rightarrow> vec \<Rightarrow> vec" where
  "mat_vec m n A v = (\<lambda>i. if i < m then row_dot n A i v else Fin 0)"

definition vec_add :: "nat \<Rightarrow> vec \<Rightarrow> vec \<Rightarrow> vec" where
  "vec_add m a b = (\<lambda>i. if i < m then fadd (a i) (b i) else Fin 0)"

definition vec_sub :: "nat \<Rightarrow> vec \<Rightarrow> vec \<Rightarrow> vec" where
  "vec_sub m a b = (\<lambda>i. if i < m then fsub (a i) (b i) else Fin 0)"

definition vec_scale :: "nat \<Rightarrow> vec \<Rightarrow> float \<Rightarrow> vec" where
  "vec_scale m a k = (\<lambda>i. if i < m then fmul (a i) k else Fin 0)"

section \<open>Throttle PID attenuation\<close>

definition TPA_RATE_LOWER_LIMIT :: float where
  "TPA_RATE_LOWER_LIMIT = Fin (5 / 100)"

text \<open>
  \<^verbatim>\<open>pid_attenuations\<close> reads the member \<^verbatim>\<open>_thrust_sp\<close> (first argument here) and returns
  the attenuation of the roll, pitch and yaw axes, in this order.
\<close>

definition pid_attenuations :: "float \<Rightarrow> float \<Rightarrow> float \<Rightarrow> float list" where
  "pid_attenuations thrust_sp tpa_breakpoint tpa_rate =
     (let tpa = fsub (Fin 1)
                  (fdiv (fmul tpa_rate (fsub (fabsf thrust_sp) tpa_breakpoint))
                        (fsub (Fin 1) tpa_breakpoint));
          tpa = fmaxf TPA_RATE_LOWER_LIMIT (fminf (Fin 1) tpa)
      in [tpa, tpa, Fin 1])"

text \<open>The spec's clamp, on the reals.\<close>

definition clamp :: "real \<Rightarrow> real \<Rightarrow> real \<Rightarrow> real" where
  "clamp x lo hi = max lo (min hi x)"

section \<open>Gyro selection and correction\<close>

record sensor_correction_s =
  gyro_offset_0 :: vec
  gyro_scale_0 :: vec
  gyro_offset_1 :: vec
  gyro_scale_1 :: vec
  gyro_offset_2 :: vec
  gyro_scale_2 :: vec
  selected_gyro_instance :: nat

text \<open>
  \<^verbatim>\<open>sensor_correction_poll\<close>: the argument \<open>upd\<close> is the new \<^verbatim>\<open>sensor_correction\<close> message
  when \<^verbatim>\<open>orb_check\<close> reports one. The result is the new (\<^verbatim>\<open>_sensor_correction\<close>,
  \<^verbatim>\<open>_selected_gyro\<close>).
\<close>

definition sensor_correction_poll ::
  "sensor_correction_s option \<Rightarrow> nat \<Rightarrow> sensor_correction_s \<times> nat \<Rightarrow> sensor_correction_s \<times> nat" where
  "sensor_correction_poll upd gyro_count st =
     (let corr = (case upd of Some m \<Rightarrow> m | None \<Rightarrow> fst st) in
      if selected_gyro_instance corr < gyro_count
      then (corr, selected_gyro_instance corr)
      else (corr, snd st))"

text \<open>
  The first lines of \<^verbatim>\<open>control_attitude_rates\<close>: the raw sample \<^verbatim>\<open>_sensor_gyro\<close> (x, y, z)
  is corrected with the offsets and scales of the selected instance, rotated by
  \<^verbatim>\<open>_board_rotation\<close>, and the bias \<^verbatim>\<open>_sensor_bias\<close> is subtracted.
\<close>

definition gyro_rates ::
  "nat \<Rightarrow> vec \<Rightarrow> sensor_correction_s \<Rightarrow> mat \<Rightarrow> vec \<Rightarrow> vec" where
  "gyro_rates selected_gyro sensor_gyro corr board_rotation sensor_bias =
     (let rates =
        (if selected_gyro = 0 then
           (\<lambda>i. if i < 3 then fmul (fsub (sensor_gyro i) (gyro_offset_0 corr i)) (gyro_scale_0 corr i)
                else Fin 0)
         else if selected_gyro = 1 then
           (\<lambda>i. if i < 3 then fmul (fsub (sensor_gyro i) (gyro_offset_1 corr i)) (gyro_scale_1 corr i)
                else Fin 0)
         else if selected_gyro = 2 then
           (\<lambda>i. if i < 3 then fmul (fsub (sensor_gyro i) (gyro_offset_2 corr i)) (gyro_scale_2 corr i)
                else Fin 0)
         else (\<lambda>i. if i < 3 then sensor_gyro i else Fin 0));
          rates = mat_vec 3 3 board_rotation rates
      in vec_sub 3 rates sensor_bias)"

text \<open>The spec's \<open>offset[instance]\<close> and \<open>scale[instance]\<close>.\<close>

definition offset_of :: "sensor_correction_s \<Rightarrow> nat \<Rightarrow> vec" where
  "offset_of corr k = (if k = 0 then gyro_offset_0 corr else if k = 1 then gyro_offset_1 corr
                       else gyro_offset_2 corr)"

definition scale_of :: "sensor_correction_s \<Rightarrow> nat \<Rightarrow> vec" where
  "scale_of corr k = (if k = 0 then gyro_scale_0 corr else if k = 1 then gyro_scale_1 corr
                      else gyro_scale_2 corr)"

section \<open>Attitude controller\<close>






section \<open>Actuator output\<close>

record actuator_controls_s =
  control :: vec
  timestamp :: nat
  timestamp_sample :: nat

text \<open>
  \<^verbatim>\<open>publish_actuator_controls\<close>. Arguments: the circuit breaker flag
  \<^verbatim>\<open>_actuators_0_circuit_breaker_enabled\<close>, the parameter \<^verbatim>\<open>_bat_scale_en\<close>,
  \<^verbatim>\<open>_battery_status.scale\<close>, \<^verbatim>\<open>_att_control\<close>, \<^verbatim>\<open>_thrust_sp\<close>, \<^verbatim>\<open>_landing_gear.landing_gear\<close>
  converted to float, the clock, \<^verbatim>\<open>_sensor_gyro.timestamp\<close> and the member \<^verbatim>\<open>_actuators\<close>.
  The result is the new \<^verbatim>\<open>_actuators\<close> and the message handed to \<^verbatim>\<open>orb_publish_auto\<close>, if
  any.
\<close>

definition publish_actuator_controls ::
  "bool \<Rightarrow> bool \<Rightarrow> float \<Rightarrow> vec \<Rightarrow> float \<Rightarrow> float \<Rightarrow> nat \<Rightarrow> nat \<Rightarrow> actuator_controls_s
     \<Rightarrow> actuator_controls_s \<times> actuator_controls_s option" where
  "publish_actuator_controls circuit_breaker_enabled bat_scale_en battery_scale att_control_v
      thrust_sp_v landing_gear hrt_absolute_time gyro_timestamp actuators =
     (let c = (control actuators)
                (0 := (if PX4_ISFINITE (att_control_v 0) then att_control_v 0 else Fin 0),
                 1 := (if PX4_ISFINITE (att_control_v 1) then att_control_v 1 else Fin 0),
                 2 := (if PX4_ISFINITE (att_control_v 2) then att_control_v 2 else Fin 0),
                 3 := (if PX4_ISFINITE thrust_sp_v then thrust_sp_v else Fin 0),
                 7 := landing_gear);
          c = (if bat_scale_en \<and> fgt battery_scale (Fin 0)
               then (\<lambda>i. if i < 4 then fmul (c i) battery_scale else c i)
               else c);
          a = actuators\<lparr>control := c, timestamp := hrt_absolute_time,
                         timestamp_sample := gyro_timestamp\<rparr>
      in (a, if \<not> circuit_breaker_enabled then Some a else None))"

text \<open>A zero-initialised \<^verbatim>\<open>_actuators\<close>.\<close>

definition actuators_zero :: actuator_controls_s where
  "actuators_zero = \<lparr>control = setZero_vec, timestamp = 0, timestamp_sample = 0\<rparr>"

text \<open>
  The thermal correction message as the constructor leaves it (offsets zero, scales
  one), reporting the given instance.
\<close>

definition correction_unit :: "nat \<Rightarrow> sensor_correction_s" where
  "correction_unit k =
     \<lparr>gyro_offset_0 = setZero_vec, gyro_scale_0 = (\<lambda>i. Fin 1),
      gyro_offset_1 = setZero_vec, gyro_scale_1 = (\<lambda>i. Fin 1),
      gyro_offset_2 = setZero_vec, gyro_scale_2 = (\<lambda>i. Fin 1),
      selected_gyro_instance = k\<rparr>"

section \<open>State-space altitude controller and mission sequencer\<close>

text \<open>
  The second half of \<^verbatim>\<open>control_attitude_rates\<close>. Its variables are members declared in
  the class header, which is not part of the source file; every number among them is taken
  to be a \<^verbatim>\<open>float\<close> (so the elapsed time \<^verbatim>\<open>run_t\<close> can be any value, whole seconds
  included), every flag a boolean, and the two selectors integers. The members the file
  never assigns are collected in \<open>cyw_config\<close>; the ones it assigns in \<open>cyw_state\<close>; what a
  call reads from the other members, the clock and the position topic in \<open>inputs\<close>. The
  \<^verbatim>\<open>PX4_INFO\<close> log lines and the counter \<^verbatim>\<open>loop_times\<close> that paces them are left out.
\<close>

record cyw_config =
  ss_G_scale_0 :: float
  ss_m :: float
  ss_Ixx :: float
  ss_Iyy :: float
  ss_Izz :: float
  g :: float
  T_max :: float
  Mx_max :: float
  My_max :: float
  Mz_max :: float
  setout_phi :: float
  setout_theta :: float
  setout_psi :: float
  mission_2_time_still :: float
  mission_2_time_height :: float
  mission_2_setout_Z :: float
  safety_return_time :: float
  return_degress_rate :: float
  cywmc_angle_control :: bool
  modern_control_mission_able :: bool

text \<open>
  \<open>hrt_arm\<close> and \<open>hrt_now\<close> are the two readings of \<^verbatim>\<open>hrt_absolute_time()\<close> (microseconds);
  \<open>pos_update\<close> is (\<^verbatim>\<open>z\<close>, \<^verbatim>\<open>vz\<close>) of a new \<^verbatim>\<open>vehicle_local_position\<close> message when
  \<^verbatim>\<open>orb_check\<close> reports one; \<open>agl_roll\<close>, \<open>agl_pitch\<close>, \<open>agl_yaw\<close> are the Euler angles the
  matrix library computes from \<^verbatim>\<open>_v_att.q\<close>.
\<close>

record inputs =
  dt :: float
  hrt_arm :: nat
  hrt_now :: nat
  flag_armed :: bool
  flag_control_rates_enabled :: bool
  is_rotary_wing :: bool
  pos_update :: "(float \<times> float) option"
  agl_roll :: float
  agl_pitch :: float
  agl_yaw :: float
  selected_gyro :: nat
  sensor_gyro :: vec
  sensor_correction :: sensor_correction_s
  board_rotation :: mat
  sensor_bias :: vec

record cyw_state =
  rates_int :: vec
  cywmc_able :: bool
  arm_t0 :: float
  run_t :: float
  pos_current_z :: float
  pos_current_vz :: float
  ss_seted :: int
  ss_x :: vec
  ss_x_dot :: vec
  ss_r :: vec
  ss_u_scale :: vec
  ss_u_actual :: vec
  ss_y :: vec
  ss_setout_y :: vec
  ss_k :: mat
  ss_A :: mat
  ss_B :: mat
  ss_C :: mat
  ss_D :: mat
  ss_G_scale :: mat
  setout_Z :: float
  need_update_r :: bool
  mordern_control_able :: bool
  give_output_able :: bool
  modern_control_mission_select :: int
  is_msl_t_set :: bool
  ms1_t :: vec
  return_back_to_0m_able :: bool
  start_return_back_runt :: float
  back_Z_aim :: float
  att_control :: vec
  thrust_sp :: float

text \<open>"Init running Time": the elapsed armed time in seconds.\<close>

definition init_running_time :: "inputs \<Rightarrow> cyw_state \<Rightarrow> cyw_state" where
  "init_running_time i s =
     (if flag_armed i \<and> flag_control_rates_enabled i then
        (let a = (if flt (arm_t0 s) (Fin 1) then Fin (real (hrt_arm i)) else arm_t0 s)
         in s\<lparr>arm_t0 := a,
               run_t := fdiv (fsub (Fin (real (hrt_now i))) a) (Fin 1000000)\<rparr>)
      else s\<lparr>arm_t0 := Fin 0, run_t := Fin 0\<rparr>)"

text \<open>"Get current position data".\<close>

definition position_poll :: "inputs \<Rightarrow> cyw_state \<Rightarrow> cyw_state" where
  "position_poll i s =
     (case pos_update i of
        Some (z, vz) \<Rightarrow> s\<lparr>pos_current_z := z, pos_current_vz := vz\<rparr>
      | None \<Rightarrow> s)"

text \<open>"Init for default parameters in SS", run while \<^verbatim>\<open>ss_seted\<close> is 0.\<close>

definition ss_init :: "cyw_config \<Rightarrow> cyw_state \<Rightarrow> cyw_state" where
  "ss_init c s =
     (if ss_seted s = 0 then
        (let G = setZero_mat((0, 0) := ss_G_scale_0 c, (1, 1) := Fin 0, (2, 2) := Fin 0,
                             (3, 3) := Fin 0);
             r = setZero_vec(0 := setout_Z s, 1 := Fin 0, 2 := Fin 0, 3 := Fin 0)
         in s\<lparr>ss_x := setZero_vec, ss_x_dot := setZero_vec,
               ss_r := mat_vec 4 4 G r,
               ss_u_scale := setZero_vec, ss_u_actual := setZero_vec, ss_y := setZero_vec,
               ss_k := setZero_mat
                 ((0, 0) := Fin 3, (0, 4) := Fin 4,
                  (1, 1) := Fin 1.4800, (1, 2) := Fin (- 0.3884), (1, 3) := Fin (- 0.3751),
                  (1, 5) := Fin 0.5151, (1, 6) := Fin (- 0.0914), (1, 7) := Fin (- 0.0650),
                  (2, 1) := Fin 0.1841, (2, 2) := Fin 1.6960, (2, 3) := Fin (- 0.0133),
                  (2, 5) := Fin 0.0709, (2, 6) := Fin 0.5454, (2, 7) := Fin 0.0140,
                  (3, 1) := Fin 0.9353, (3, 2) := Fin 0.6032, (3, 3) := Fin 5.4446,
                  (3, 5) := Fin 0.0915, (3, 6) := Fin 0.1529, (3, 7) := Fin 2.1972),
               ss_A := setZero_mat((0, 4) := Fin 1, (1, 5) := Fin 1, (2, 6) := Fin 1,
                                   (3, 7) := Fin 1),
               ss_B := setZero_mat((4, 0) := fdiv (Fin 1) (ss_m c),
                                   (5, 1) := fdiv (Fin 1) (ss_Ixx c),
                                   (6, 2) := fdiv (Fin 1) (ss_Iyy c),
                                   (7, 3) := fdiv (Fin 1) (ss_Izz c)),
               ss_C := setZero_mat((0, 0) := Fin 1, (1, 1) := Fin 1, (2, 2) := Fin 1,
                                   (3, 3) := Fin 1),
               ss_D := setZero_mat,
               ss_G_scale := G,
               ss_setout_y := (ss_setout_y s)(0 := setout_Z s, 1 := setout_phi c,
                                              2 := setout_theta c, 3 := setout_psi c),
               ss_seted := 1\<rparr>)
      else s)"

text \<open>"Update r if needed in every loop".\<close>

definition update_r :: "cyw_state \<Rightarrow> cyw_state" where
  "update_r s =
     (if need_update_r s then
        s\<lparr>ss_r := mat_vec 4 4 (ss_G_scale s) ((ss_r s)(0 := setout_Z s)),
          need_update_r := False\<rparr>
      else s)"

text \<open>Mission 1: stand still, then 1 m, 1.5 m and 2 m.\<close>

definition mission1 :: "cyw_state \<Rightarrow> cyw_state" where
  "mission1 s0 =
     (let s = (if \<not> is_msl_t_set s0
               then s0\<lparr>ms1_t := (ms1_t s0)(0 := Fin 5, 1 := Fin 15, 2 := Fin 15, 3 := Fin 15),
                       is_msl_t_set := True\<rparr>
               else s0);
          t = ms1_t s; r = run_t s
      in if flt r (t 0) then
           s\<lparr>give_output_able := False,
             att_control := (att_control s)(0 := Fin 0, 1 := Fin 0, 2 := Fin 0),
             thrust_sp := Fin 0\<rparr>
         else if fgt r (t 0) \<and> flt r (fadd (t 0) (t 1)) then
           s\<lparr>need_update_r := True, setout_Z := Fin 1\<rparr>
         else if fgt r (t 0) \<and> flt r (fadd (fadd (t 0) (t 1)) (t 2)) then
           s\<lparr>need_update_r := True, setout_Z := Fin 1.5\<rparr>
         else if fgt r (t 0) \<and> flt r (fadd (fadd (fadd (t 0) (t 1)) (t 2)) (t 3)) then
           s\<lparr>need_update_r := True, setout_Z := Fin 2\<rparr>
         else
           s\<lparr>return_back_to_0m_able := True, modern_control_mission_select := 0,
             start_return_back_runt := r\<rparr>)"

text \<open>Mission 2: stand still, then one configured altitude.\<close>

definition mission2 :: "cyw_config \<Rightarrow> cyw_state \<Rightarrow> cyw_state" where
  "mission2 c s0 =
     (let s = (if \<not> is_msl_t_set s0
               then s0\<lparr>ms1_t := (ms1_t s0)(0 := mission_2_time_still c,
                                             1 := mission_2_time_height c),
                       is_msl_t_set := True\<rparr>
               else s0);
          t = ms1_t s; r = run_t s
      in if flt r (t 0) then
           s\<lparr>give_output_able := False,
             att_control := (att_control s)(0 := Fin 0, 1 := Fin 0, 2 := Fin 0),
             thrust_sp := Fin 0\<rparr>
         else if fgt r (t 0) \<and> flt r (fadd (t 0) (t 1)) then
           s\<lparr>need_update_r := True, setout_Z := mission_2_setout_Z c\<rparr>
         else
           s\<lparr>return_back_to_0m_able := True, modern_control_mission_select := 0,
             start_return_back_runt := r\<rparr>)"

text \<open>"Mission": the two missions are tried one after the other; mission 3 is empty.\<close>

definition mission :: "cyw_config \<Rightarrow> cyw_state \<Rightarrow> cyw_state" where
  "mission c s =
     (if modern_control_mission_able c then
        (let s1 = s\<lparr>mordern_control_able := True, give_output_able := True\<rparr>;
             s2 = (if modern_control_mission_select s1 = 1 then mission1 s1 else s1);
             s3 = (if modern_control_mission_select s2 = 2 then mission2 c s2 else s2)
         in s3)
      else s\<lparr>give_output_able := False\<rparr>)"

text \<open>The safety timeout at the head of "Return Back To 0m".\<close>

definition safety_timeout :: "cyw_config \<Rightarrow> cyw_state \<Rightarrow> cyw_state" where
  "safety_timeout c s =
     (if fgt (run_t s) (safety_return_time c) then s\<lparr>cywmc_able := False\<rparr> else s)"

text \<open>"Return Back To 0m"; \<open>Z\<close> is the local copy of \<^verbatim>\<open>pos_current.z\<close>.\<close>

definition return_back :: "cyw_config \<Rightarrow> cyw_state \<Rightarrow> cyw_state" where
  "return_back c s =
     (if return_back_to_0m_able s then
        (let Z = pos_current_z s;
             s1 = s\<lparr>need_update_r := True\<rparr>;
             s2 = (if flt (fneg Z) (fdiv (back_Z_aim s1) (return_degress_rate c))
                      \<and> fge (setout_Z s1) (Fin 0.25)
                   then s1\<lparr>back_Z_aim := fmul (fneg Z) (return_degress_rate c),
                           setout_Z := fmul (setout_Z s1) (return_degress_rate c)\<rparr>
                   else s1);
             s3 = (if flt (setout_Z s2) (Fin 0.25)
                   then s2\<lparr>setout_Z := Fin 0, need_update_r := True\<rparr>
                   else s2);
             s4 = (if flt (fneg Z) (Fin 0.2) then s3\<lparr>give_output_able := False\<rparr> else s3)
         in s4)
      else s)"

text \<open>
  The state vector the feedback builds from the measurements: altitude and vertical rate
  sign-flipped, the Euler angles, the corrected body rates.
\<close>

definition measured_state :: "inputs \<Rightarrow> vec \<Rightarrow> cyw_state \<Rightarrow> vec" where
  "measured_state i rates s =
     (ss_x s)(0 := fneg (pos_current_z s), 1 := agl_roll i, 2 := agl_pitch i, 3 := agl_yaw i,
              4 := fneg (pos_current_vz s), 5 := rates 0, 6 := rates 1, 7 := rates 2)"

text \<open>"Main feedback control".\<close>

definition feedback :: "inputs \<Rightarrow> vec \<Rightarrow> cyw_state \<Rightarrow> cyw_state" where
  "feedback i rates s =
     (if mordern_control_able s then
        (let x = measured_state i rates s;
             u = vec_sub 4 (ss_r s) (mat_vec 4 8 (ss_k s) x);
             x_dot = vec_add 8 (mat_vec 8 4 (ss_B s) u) (mat_vec 8 8 (ss_A s) x);
             x' = vec_add 8 x (vec_scale 8 x_dot (dt i))
         in s\<lparr>ss_u_actual := u, ss_x_dot := x_dot, ss_x := x',
               ss_y := mat_vec 4 8 (ss_C s) x'\<rparr>)
      else s)"

text \<open>"Give Output".\<close>

definition give_output :: "cyw_config \<Rightarrow> cyw_state \<Rightarrow> cyw_state" where
  "give_output c s =
     (if give_output_able s then
        (let us = (ss_u_scale s)
                    (0 := fdiv (fadd (ss_u_actual s 0) (fmul (ss_m c) (g c))) (T_max c),
                     1 := fdiv (ss_u_actual s 1) (Mx_max c),
                     2 := fdiv (ss_u_actual s 2) (My_max c),
                     3 := fdiv (ss_u_actual s 3) (Mz_max c));
             s1 = s\<lparr>ss_u_scale := us\<rparr>;
             s2 = (if cywmc_angle_control c
                   then s1\<lparr>att_control := (att_control s1)(0 := us 1, 1 := us 2, 2 := us 3)\<rparr>
                   else s1)
         in s2\<lparr>thrust_sp := us 0\<rparr>)
      else
        (let s1 = (if cywmc_angle_control c
                   then s\<lparr>att_control := (att_control s)(0 := Fin 0, 1 := Fin 0, 2 := Fin 0)\<rparr>
                   else s)
         in s1\<lparr>thrust_sp := Fin 0\<rparr>))"

text \<open>
  The block up to the feedback: timing, position, one-time setup, reference update,
  mission, safety timeout and return.
\<close>

definition sequencer :: "cyw_config \<Rightarrow> inputs \<Rightarrow> cyw_state \<Rightarrow> cyw_state" where
  "sequencer c i s =
     return_back c (safety_timeout c (mission c (update_r (ss_init c
       (position_poll i (init_running_time i s))))))"

text \<open>"reset integral if disarmed", the first statement of \<^verbatim>\<open>control_attitude_rates\<close>.\<close>

definition reset_integral :: "inputs \<Rightarrow> cyw_state \<Rightarrow> cyw_state" where
  "reset_integral i s =
     (if \<not> flag_armed i \<or> \<not> is_rotary_wing i then s\<lparr>rates_int := setZero_vec\<rparr> else s)"

text \<open>The corrected body rates of the call.\<close>

definition rates_of :: "inputs \<Rightarrow> vec" where
  "rates_of i = gyro_rates (selected_gyro i) (sensor_gyro i) (sensor_correction i)
                  (board_rotation i) (sensor_bias i)"

definition control_attitude_rates :: "cyw_config \<Rightarrow> inputs \<Rightarrow> cyw_state \<Rightarrow> cyw_state" where
  "control_attitude_rates c i s0 =
     (let s = reset_integral i s0;
          rates = rates_of i
      in if cywmc_able s then give_output c (feedback i rates (sequencer c i s)) else s)"

text \<open>Successive control cycles, one element of the list per call.\<close>

fun run_cycles :: "cyw_config \<Rightarrow> cyw_state \<Rightarrow> inputs list \<Rightarrow> cyw_state" where
  "run_cycles c s [] = s"
| "run_cycles c s (i # rest) = run_cycles c (control_attitude_rates c i s) rest"

text \<open>
  Concrete data for the examples: all members zero, no flag set; a configuration with
  unit mass and inertia, \<open>g = 10\<close>, maximum thrust 20, unit maximum torques, reference
  scale 3, ramp factor 0.9 and a safety ceiling of 100 s; and the reading of one cycle of
  an armed vehicle at the given clock (microseconds) and vertical position, level and at
  rest.
\<close>

definition state_zero :: cyw_state where
  "state_zero =
     \<lparr>rates_int = setZero_vec, cywmc_able = False, arm_t0 = Fin 0, run_t = Fin 0,
      pos_current_z = Fin 0, pos_current_vz = Fin 0, ss_seted = 0,
      ss_x = setZero_vec, ss_x_dot = setZero_vec, ss_r = setZero_vec,
      ss_u_scale = setZero_vec, ss_u_actual = setZero_vec, ss_y = setZero_vec,
      ss_setout_y = setZero_vec,
      ss_k = setZero_mat, ss_A = setZero_mat, ss_B = setZero_mat, ss_C = setZero_mat,
      ss_D = setZero_mat, ss_G_scale = setZero_mat,
      setout_Z = Fin 0, need_update_r = False, mordern_control_able = False,
      give_output_able = False, modern_control_mission_select = 0, is_msl_t_set = False,
      ms1_t = setZero_vec, return_back_to_0m_able = False, start_return_back_runt = Fin 0,
      back_Z_aim = Fin 0, att_control = setZero_vec, thrust_sp = Fin 0\<rparr>"

definition config_example :: cyw_config where
  "config_example =
     \<lparr>ss_G_scale_0 = Fin 3, ss_m = Fin 1, ss_Ixx = Fin 1, ss_Iyy = Fin 1, ss_Izz = Fin 1,
      g = Fin 10, T_max = Fin 20, Mx_max = Fin 1, My_max = Fin 1, Mz_max = Fin 1,
      setout_phi = Fin 0, setout_theta = Fin 0, setout_psi = Fin 0,
      mission_2_time_still = Fin 5, mission_2_time_height = Fin 15,
      mission_2_setout_Z = Fin 1, safety_return_time = Fin 100,
      return_degress_rate = Fin 0.9, cywmc_angle_control = True,
      modern_control_mission_able = True\<rparr>"

definition inputs_example :: "nat \<Rightarrow> float \<Rightarrow> inputs" where
  "inputs_example now z =
     \<lparr>dt = Fin 0.004, hrt_arm = now, hrt_now = now, flag_armed = True,
      flag_control_rates_enabled = True, is_rotary_wing = True,
      pos_update = Some (z, Fin 0), agl_roll = Fin 0, agl_pitch = Fin 0, agl_yaw = Fin 0,
      selected_gyro = 0, sensor_gyro = setZero_vec, sensor_correction = correction_unit 0,
      board_rotation = (\<lambda>p. if fst p = snd p then Fin 1 else Fin 0),
      sensor_bias = setZero_vec\<rparr>"

text \<open>
  A vehicle that armed at clock 1 s, the controller enabled; the same in mission 1 at
  elapsed time \<open>t\<close> seconds (the time plan not yet set).
\<close>

definition state_armed :: cyw_state where
  "state_armed = state_zero\<lparr>cywmc_able := True, arm_t0 := Fin 1000000\<rparr>"

definition state_mission1 :: "real \<Rightarrow> cyw_state" where
  "state_mission1 t = state_armed\<lparr>modern_control_mission_select := 1, run_t := Fin t\<rparr>"

text \<open>
  The spec's transition rule: the smallest index \<open>k\<close> such that the elapsed time lies in
  \<open>[T\<^sub>0 + \<dots> + T\<^sub>k\<^sub>-\<^sub>1, T\<^sub>0 + \<dots> + T\<^sub>k)\<close>, and no index (the sequencer returns) when
  there is none. \<open>spec_phase_from acc k\<close> looks at the thresholds from index \<open>k\<close> on, \<open>acc\<close>
  being the sum of the durations before.
\<close>

fun spec_phase_from :: "real \<Rightarrow> nat \<Rightarrow> real list \<Rightarrow> real \<Rightarrow> nat option" where
  "spec_phase_from acc k [] r = None"
| "spec_phase_from acc k (T # Ts) r =
     (if acc \<le> r \<and> r < acc + T then Some k else spec_phase_from (acc + T) (Suc k) Ts r)"

definition spec_phase :: "real list \<Rightarrow> real \<Rightarrow> nat option" where
  "spec_phase Ts r = spec_phase_from 0 0 Ts r"

text \<open>
  The sequencer is returning: the return flag is set and neither mission is selected (a
  mission that hands over to the return clears the selector).
\<close>

definition returning :: "cyw_state \<Rightarrow> bool" where
  "returning s \<longleftrightarrow> return_back_to_0m_able s \<and> modern_control_mission_select s \<noteq> 1
                    \<and> modern_control_mission_select s \<noteq> 2"

text \<open>
  The armed vehicle after its mission, returning; and the same returning from a commanded
  altitude of 2 m.
\<close>

definition state_late :: cyw_state where
  "state_late = state_armed\<lparr>return_back_to_0m_able := True\<rparr>"


section \<open>Properties\<close>

subsection \<open>Landing gear\<close>

lemma gear_run_down:
  "\<not> init \<Longrightarrow> \<forall>p \<in> set evs. snd p \<noteq> SWITCH_POS_OFF \<Longrightarrow> \<forall>e \<in> set (gear_run init evs). e = GEAR_DOWN"
proof (induction evs arbitrary: init)
  case Nil
  then show ?case by simp
next
  case (Cons ev evs)
  obtain landed sw where ev: "ev = (landed, sw)" by (cases ev)
  from Cons.prems(2) ev have sw: "sw \<noteq> SWITCH_POS_OFF" by simp
  from Cons.prems(1) sw have st: "get_landing_gear_state init landed sw = (False, GEAR_DOWN)"
    by (simp add: get_landing_gear_state_def)
  from Cons.prems(2) have rest: "\<forall>p \<in> set evs. snd p \<noteq> SWITCH_POS_OFF" by simp
  have "\<forall>e \<in> set (gear_run False evs). e = GEAR_DOWN"
    using Cons.IH [of False] rest by simp
  with ev st show ?case by simp
qed

text \<open>
  C9. The vehicle is landed at the first evaluation and the gear switch is never in the
  "off" position during the evaluations (in particular when it is held "on" throughout):
  then every evaluation returns gear down, whatever \<^verbatim>\<open>_gear_state_initialized\<close> was before
  and whatever the land detector reports afterwards.
\<close>

theorem landing_gear_never_up_before_off:
  assumes "\<forall>p \<in> set ((True, sw) # evs). snd p \<noteq> SWITCH_POS_OFF"
  shows "\<forall>e \<in> set (gear_run init ((True, sw) # evs)). e = GEAR_DOWN"
proof -
  from assms have sw: "sw \<noteq> SWITCH_POS_OFF" by simp
  then have st: "get_landing_gear_state init True sw = (False, GEAR_DOWN)"
    by (simp add: get_landing_gear_state_def)
  from assms have "\<forall>p \<in> set evs. snd p \<noteq> SWITCH_POS_OFF" by simp
  then have "\<forall>e \<in> set (gear_run False evs). e = GEAR_DOWN"
    using gear_run_down [of False evs] by simp
  with st show ?thesis by simp
qed

theorem landing_gear_never_up_before_off_witness:
  "gear_run True [(True, SWITCH_POS_ON), (False, SWITCH_POS_ON), (False, SWITCH_POS_ON)]
     = [GEAR_DOWN, GEAR_DOWN, GEAR_DOWN]"
  using landing_gear_never_up_before_off
          [of SWITCH_POS_ON "[(False, SWITCH_POS_ON), (False, SWITCH_POS_ON)]" True]
  by (simp add: get_landing_gear_state_def)

subsection \<open>Throttle PID attenuation\<close>

lemma tpa_clamp_cases:
  "fmaxf TPA_RATE_LOWER_LIMIT (fminf (Fin 1) x) =
     (case x of Fin y \<Rightarrow> Fin (clamp y (5 / 100) 1) | PInf \<Rightarrow> Fin 1
              | NInf \<Rightarrow> Fin (5 / 100) | NaN \<Rightarrow> Fin 1)"
  by (cases x) (auto simp: fmaxf_def fminf_def TPA_RATE_LOWER_LIMIT_def clamp_def)

lemma clamp_range: "5 / 100 \<le> clamp y (5 / 100) 1 \<and> clamp y (5 / 100) 1 \<le> 1"
  by (auto simp: clamp_def)

lemma tpa_clamp_bounded:
  "\<exists>v. fmaxf TPA_RATE_LOWER_LIMIT (fminf (Fin 1) x) = Fin v \<and> 5 / 100 \<le> v \<and> v \<le> 1"
proof (cases x)
  case (Fin y)
  then show ?thesis using clamp_range [of y] by (simp only: tpa_clamp_cases float.case) blast
next
  case PInf
  then show ?thesis by (simp only: tpa_clamp_cases float.case) auto
next
  case NInf
  have "(5::real) / 100 \<le> 5 / 100 \<and> (5::real) / 100 \<le> 1" by simp
  with NInf show ?thesis by (simp only: tpa_clamp_cases float.case) blast
next
  case NaN
  then show ?thesis by (simp only: tpa_clamp_cases float.case) auto
qed

lemma tpa_clamp_fin:
  "fmaxf TPA_RATE_LOWER_LIMIT (fminf (Fin 1) (Fin y)) = Fin (clamp y (5 / 100) 1)"
  by (auto simp: fmaxf_def fminf_def TPA_RATE_LOWER_LIMIT_def clamp_def)

lemma tpa_formula:
  assumes "b \<noteq> 1"
  shows "pid_attenuations (Fin t) (Fin b) (Fin r) =
           [Fin (clamp (1 - r * (\<bar>t\<bar> - b) / (1 - b)) (5 / 100) 1),
            Fin (clamp (1 - r * (\<bar>t\<bar> - b) / (1 - b)) (5 / 100) 1), Fin 1]"
  using assms by (simp add: pid_attenuations_def fsub_def tpa_clamp_fin Let_def)

lemma tpa_bounded:
  "\<exists>v. 5 / 100 \<le> v \<and> v \<le> 1 \<and> pid_attenuations th bp rt = [Fin v, Fin v, Fin 1]"
proof -
  obtain v where "fmaxf TPA_RATE_LOWER_LIMIT (fminf (Fin 1) (fsub (Fin 1)
                  (fdiv (fmul rt (fsub (fabsf th) bp))
                        (fsub (Fin 1) bp)))) = Fin v" "5 / 100 \<le> v" "v \<le> 1"
    using tpa_clamp_bounded by blast
  then show ?thesis by (auto simp: pid_attenuations_def Let_def)
qed

lemma clamp_mono: "x \<le> y \<Longrightarrow> clamp x lo hi \<le> clamp y lo hi"
  by (auto simp: clamp_def)

lemma tpa_real_mono:
  assumes "b \<noteq> 1" "b \<le> a1" "a1 \<le> a2"
  shows "clamp (1 - r * (a2 - b) / (1 - b)) (5 / 100) 1 \<le> clamp (1 - r * (a1 - b) / (1 - b)) (5 / 100) 1"
proof (cases "0 \<le> r / (1 - b)")
  case True
  have "r / (1 - b) * (a1 - b) \<le> r / (1 - b) * (a2 - b)"
    using True assms by (intro mult_left_mono) auto
  then have "1 - r * (a2 - b) / (1 - b) \<le> 1 - r * (a1 - b) / (1 - b)"
    by (simp add: field_simps)
  then show ?thesis by (rule clamp_mono)
next
  case False
  then have neg: "r / (1 - b) < 0" by simp
  have "r / (1 - b) * (a1 - b) \<le> 0"
    using neg assms by (intro mult_nonpos_nonneg) auto
  then have "1 \<le> 1 - r * (a1 - b) / (1 - b)" by (simp add: field_simps)
  then have "clamp (1 - r * (a1 - b) / (1 - b)) (5 / 100) 1 = 1"
    by (auto simp: clamp_def)
  moreover have "clamp (1 - r * (a2 - b) / (1 - b)) (5 / 100) 1 \<le> 1"
    by (auto simp: clamp_def)
  ultimately show ?thesis by simp
qed

lemma tpa_at_one:
  "pid_attenuations (Fin t) (Fin 1) (Fin r) ! 0 =
     (if 0 < r * (\<bar>t\<bar> - 1) then Fin (5 / 100) else Fin 1)"
  by (auto simp: pid_attenuations_def fsub_def Let_def inf_of_def fmaxf_def fminf_def
        TPA_RATE_LOWER_LIMIT_def)

lemma tpa_mono:
  assumes "b \<le> \<bar>t1\<bar>" "\<bar>t1\<bar> \<le> \<bar>t2\<bar>"
  shows "\<exists>v1 v2. pid_attenuations (Fin t1) (Fin b) (Fin r) ! 0 = Fin v1 \<and>
                 pid_attenuations (Fin t2) (Fin b) (Fin r) ! 0 = Fin v2 \<and> v2 \<le> v1"
proof (cases "b = 1")
  case False
  then show ?thesis
    using tpa_real_mono [OF False assms, of r] by (simp add: tpa_formula)
next
  case True
  show ?thesis
  proof (cases "0 < r * (\<bar>t2\<bar> - 1)")
    case True
    have "pid_attenuations (Fin t2) (Fin b) (Fin r) ! 0 = Fin (5 / 100)"
      using True \<open>b = 1\<close> by (simp only: tpa_at_one if_True)
    moreover obtain v1 where "pid_attenuations (Fin t1) (Fin b) (Fin r) = [Fin v1, Fin v1, Fin 1]"
        "5 / 100 \<le> v1"
      using tpa_bounded [of "Fin t1" "Fin b" "Fin r"] by blast
    ultimately have "pid_attenuations (Fin t1) (Fin b) (Fin r) ! 0 = Fin v1 \<and>
        pid_attenuations (Fin t2) (Fin b) (Fin r) ! 0 = Fin (5 / 100) \<and> 5 / 100 \<le> v1"
      by simp
    then show ?thesis by blast
  next
    case False
    have "\<not> 0 < r * (\<bar>t1\<bar> - 1)"
    proof
      assume pos: "0 < r * (\<bar>t1\<bar> - 1)"
      with assms \<open>b = 1\<close> have "0 < r" "0 < \<bar>t1\<bar> - 1"
        by (auto simp: zero_less_mult_iff)
      with assms have "0 < r * (\<bar>t2\<bar> - 1)" by simp
      with False show False by simp
    qed
    with False \<open>b = 1\<close> show ?thesis by (simp add: tpa_at_one)
  qed
qed

text \<open>
  C7. For finite thrust setpoint \<open>t\<close>, breakpoint \<open>b\<close> and rate \<open>r\<close> with \<open>b \<noteq> 1\<close>, the roll and
  pitch factors of \<^verbatim>\<open>pid_attenuations\<close> are \<open>clamp (1 - r (|t| - b) / (1 - b)) 0.05 1\<close> and the
  yaw factor is 1. For every thrust setpoint, breakpoint and rate, NaN and the infinities
  included, the roll and pitch factors are one finite value between 0.05 and 1 and the yaw
  factor is exactly 1. For finite arguments the factor does not increase when \<open>|t|\<close> grows
  above the breakpoint (also at \<open>b = 1\<close>, where the quotient is a division by zero).
\<close>

theorem pid_attenuations_tpa:
  "(b \<noteq> 1 \<longrightarrow>
      pid_attenuations (Fin t) (Fin b) (Fin r) =
        [Fin (clamp (1 - r * (\<bar>t\<bar> - b) / (1 - b)) (5 / 100) 1),
         Fin (clamp (1 - r * (\<bar>t\<bar> - b) / (1 - b)) (5 / 100) 1), Fin 1])
   \<and> (\<exists>v. 5 / 100 \<le> v \<and> v \<le> 1 \<and>
          pid_attenuations th bp rt = [Fin v, Fin v, Fin 1])
   \<and> (b \<le> \<bar>t1\<bar> \<and> \<bar>t1\<bar> \<le> \<bar>t2\<bar> \<longrightarrow>
        (\<exists>v1 v2. pid_attenuations (Fin t1) (Fin b) (Fin r) ! 0 = Fin v1 \<and>
                  pid_attenuations (Fin t2) (Fin b) (Fin r) ! 0 = Fin v2 \<and> v2 \<le> v1))"
  using tpa_formula [of b t r] tpa_bounded [of th bp rt]
        tpa_mono [of b t1 t2 r]
  by blast

theorem pid_attenuations_tpa_witness:
  "(1 / 2 :: real) \<noteq> 1 \<and> (1 / 2 :: real) \<le> \<bar>1 / 2\<bar> \<and> \<bar>1 / 2 :: real\<bar> \<le> \<bar>3 / 4\<bar>
   \<and> pid_attenuations (Fin (3 / 4)) (Fin (1 / 2)) (Fin (1 / 2)) = [Fin (3 / 4), Fin (3 / 4), Fin 1]
   \<and> pid_attenuations (Fin (1 / 2)) (Fin (1 / 2)) (Fin (1 / 2)) ! 0 = Fin 1"
  using pid_attenuations_tpa [of "1 / 2" "3 / 4" "1 / 2" NaN NaN NaN "1 / 2" "3 / 4"]
  by (simp add: clamp_def pid_attenuations_def fsub_def fmaxf_def fminf_def
        TPA_RATE_LOWER_LIMIT_def Let_def)

subsection \<open>Gyro selection and correction\<close>

text \<open>
  C6, counterexample. Instance 1 is selected, three instances exist, and a correction
  message reports instance 7: the selected instance stays 1, it is not 0.
\<close>

theorem gyro_fallback_counterexample:
  "snd (sensor_correction_poll (Some (correction_unit 7)) 3 (correction_unit 1, 1)) = 1
   \<and> snd (sensor_correction_poll (Some (correction_unit 7)) 3 (correction_unit 1, 1)) \<noteq> 0"
  by (simp add: sensor_correction_poll_def correction_unit_def)

text \<open>
  C6 (as amended). While the selected instance \<open>sel\<close> is 0, 1 or 2, the corrected body rate is
  the board rotation applied to \<open>(raw - offset[sel]) * scale[sel]\<close> per axis, minus the bias.
  After \<^verbatim>\<open>sensor_correction_poll\<close> the selected instance is the reported one when that is
  less than the instance count, and otherwise the instance selected before: an invalid
  report changes nothing, it does not select instance 0. A selected instance below the
  instance count stays below it (\<^verbatim>\<open>run\<close> bounds the count by \<^verbatim>\<open>MAX_GYRO_COUNT\<close>, a constant of
  the header; three sets of offsets and scales exist).
\<close>

theorem gyro_correction_pipeline:
  "(sel < 3 \<longrightarrow>
      (\<forall>i < 3. gyro_rates sel raw corr R bias i =
         fsub (mat_vec 3 3 R
                 (\<lambda>j. if j < 3 then fmul (fsub (raw j) (offset_of corr sel j))
                                          (scale_of corr sel j)
                       else Fin 0) i)
              (bias i)))
   \<and> snd (sensor_correction_poll upd gyro_count (old, sel)) =
       (let reported = selected_gyro_instance (case upd of Some m \<Rightarrow> m | None \<Rightarrow> old)
        in if reported < gyro_count then reported else sel)
   \<and> (sel < gyro_count \<longrightarrow> snd (sensor_correction_poll upd gyro_count (old, sel)) < gyro_count)"
proof -
  have "gyro_rates sel raw corr R bias =
          vec_sub 3 (mat_vec 3 3 R
                 (\<lambda>j. if j < 3 then fmul (fsub (raw j) (offset_of corr sel j))
                                          (scale_of corr sel j)
                       else Fin 0)) bias" if "sel < 3"
  proof -
    from that consider "sel = 0" | "sel = 1" | "sel = 2"
      by linarith
    then show ?thesis
    proof cases
      case 1
      then show ?thesis by (simp add: gyro_rates_def offset_of_def scale_of_def cong: if_cong)
    next
      case 2
      then show ?thesis by (simp add: gyro_rates_def offset_of_def scale_of_def cong: if_cong)
    next
      case 3
      then show ?thesis by (simp add: gyro_rates_def offset_of_def scale_of_def cong: if_cong)
    qed
  qed
  then have rates: "sel < 3 \<longrightarrow>
      (\<forall>i < 3. gyro_rates sel raw corr R bias i =
         fsub (mat_vec 3 3 R
                 (\<lambda>j. if j < 3 then fmul (fsub (raw j) (offset_of corr sel j))
                                          (scale_of corr sel j)
                       else Fin 0) i)
              (bias i))"
    by (simp add: vec_sub_def)
  have poll: "snd (sensor_correction_poll upd gyro_count (old, sel)) =
       (let reported = selected_gyro_instance (case upd of Some m \<Rightarrow> m | None \<Rightarrow> old)
        in if reported < gyro_count then reported else sel)"
    by (cases upd) (simp_all add: sensor_correction_poll_def Let_def)
  have inv: "sel < gyro_count \<longrightarrow>
               snd (sensor_correction_poll upd gyro_count (old, sel)) < gyro_count"
    by (cases upd) (simp_all add: sensor_correction_poll_def Let_def)
  from rates poll inv show ?thesis by blast
qed

theorem gyro_correction_pipeline_witness:
  "(1::nat) < 3 \<and> (0::nat) < 3 \<and>
   gyro_rates 1 (\<lambda>i. Fin 2) (correction_unit 1) (\<lambda>p. if fst p = snd p then Fin 1 else Fin 0)
       setZero_vec 0 = Fin 2
   \<and> snd (sensor_correction_poll (Some (correction_unit 2)) 3 (correction_unit 1, 1)) = 2"
proof -
  have e: "fsub (mat_vec 3 3 (\<lambda>p. if fst p = snd p then Fin 1 else Fin 0)
                 (\<lambda>j. if j < 3 then fmul (fsub (Fin 2) (offset_of (correction_unit 1) 1 j))
                                          (scale_of (correction_unit 1) 1 j)
                       else Fin 0) 0)
              (setZero_vec 0) = Fin 2"
    by code_simp
  have p: "snd (sensor_correction_poll (Some (correction_unit 2)) 3 (correction_unit 1, 1)) = 2"
    by (simp add: sensor_correction_poll_def correction_unit_def)
  from gyro_correction_pipeline [of 1 "\<lambda>i. Fin 2" "correction_unit 1"
      "\<lambda>p. if fst p = snd p then Fin 1 else Fin 0" setZero_vec "Some (correction_unit 2)" 3
      "correction_unit 1"]
  have "gyro_rates 1 (\<lambda>i. Fin 2) (correction_unit 1) (\<lambda>p. if fst p = snd p then Fin 1 else Fin 0)
       setZero_vec 0 = fsub (mat_vec 3 3 (\<lambda>p. if fst p = snd p then Fin 1 else Fin 0)
                 (\<lambda>j. if j < 3 then fmul (fsub (Fin 2) (offset_of (correction_unit 1) 1 j))
                                          (scale_of (correction_unit 1) 1 j)
                       else Fin 0) 0)
              (setZero_vec 0)"
    by simp
  with e p show ?thesis by simp
qed

subsection \<open>Attitude controller\<close>


subsection \<open>Actuator output\<close>

text \<open>
  C3, counterexample. Battery compensation is enabled, the battery scale is \<open>+inf\<close> and
  the roll demand is NaN: the NaN is replaced by 0, the scaling multiplies it by \<open>+inf\<close>,
  and the published roll channel is NaN.
\<close>

theorem publish_nonfinite_counterexample:
  "control (fst (publish_actuator_controls False True PInf (\<lambda>i. NaN) (Fin 0) (Fin 0) 0 0
                   actuators_zero)) 0 = NaN
   \<and> snd (publish_actuator_controls False True PInf (\<lambda>i. NaN) (Fin 0) (Fin 0) 0 0
                   actuators_zero)
       = Some (fst (publish_actuator_controls False True PInf (\<lambda>i. NaN) (Fin 0) (Fin 0) 0 0
                   actuators_zero))"
  by (simp add: publish_actuator_controls_def fgt_def Let_def)

lemma fmul_zero_finite: "PX4_ISFINITE k \<Longrightarrow> fmul (Fin 0) k = Fin 0"
  by (cases k) auto

text \<open>
  C3 (as amended). Provided the battery scale is finite whenever the battery compensation
  applies (enabled, and the scale positive), every non-finite value among the three torque
  demands and the thrust demand is exactly 0 in \<^verbatim>\<open>_actuators.control\<close>; the message is
  published if and only if the circuit breaker is not engaged.
\<close>

theorem publish_actuator_controls_sanitised:
  assumes "bat_scale_en \<and> fgt battery_scale (Fin 0) \<longrightarrow> PX4_ISFINITE battery_scale"
  shows "(\<forall>i < 3. \<not> PX4_ISFINITE (att i) \<longrightarrow>
            control (fst (publish_actuator_controls cb bat_scale_en battery_scale att
                            thr lg now ts a)) i = Fin 0)
       \<and> (\<not> PX4_ISFINITE thr \<longrightarrow>
            control (fst (publish_actuator_controls cb bat_scale_en battery_scale att
                            thr lg now ts a)) 3 = Fin 0)
       \<and> snd (publish_actuator_controls cb bat_scale_en battery_scale att
                            thr lg now ts a) =
           (if cb then None
            else Some (fst (publish_actuator_controls cb bat_scale_en battery_scale att
                            thr lg now ts a)))"
proof -
  have a: "\<And>i::nat. i < 3 \<Longrightarrow> i = 0 \<or> i = 1 \<or> i = 2" by auto
  show ?thesis
    using assms a by (auto simp: publish_actuator_controls_def Let_def fmul_zero_finite)
qed

theorem publish_actuator_controls_sanitised_witness:
  "control (fst (publish_actuator_controls False True (Fin 1.2) (\<lambda>i. if i = 0 then NaN else Fin 0.5)
                   PInf (Fin 0) 0 0 actuators_zero)) 0 = Fin 0
   \<and> control (fst (publish_actuator_controls False True (Fin 1.2) (\<lambda>i. if i = 0 then NaN else Fin 0.5)
                   PInf (Fin 0) 0 0 actuators_zero)) 3 = Fin 0
   \<and> snd (publish_actuator_controls True True (Fin 1.2) (\<lambda>i. if i = 0 then NaN else Fin 0.5)
                   PInf (Fin 0) 0 0 actuators_zero) = None"
  using publish_actuator_controls_sanitised [of True "Fin 1.2" "\<lambda>i. if i = 0 then NaN else Fin 0.5"
      False PInf "Fin 0" 0 0 actuators_zero]
    publish_actuator_controls_sanitised [of True "Fin 1.2" "\<lambda>i. if i = 0 then NaN else Fin 0.5"
      True PInf "Fin 0" 0 0 actuators_zero]
  by (simp add: fgt_def)

subsection \<open>What each step of the control cycle leaves unchanged\<close>

lemma modern_control_mission_select_steps [simp]:
  "modern_control_mission_select (reset_integral i s) = modern_control_mission_select s"
  "modern_control_mission_select (init_running_time i s) = modern_control_mission_select s"
  "modern_control_mission_select (position_poll i s) = modern_control_mission_select s"
  "modern_control_mission_select (ss_init c s) = modern_control_mission_select s"
  "modern_control_mission_select (update_r s) = modern_control_mission_select s"
  "modern_control_mission_select (safety_timeout c s) = modern_control_mission_select s"
  "modern_control_mission_select (return_back c s) = modern_control_mission_select s"
  "modern_control_mission_select (feedback i r s) = modern_control_mission_select s"
  "modern_control_mission_select (give_output c s) = modern_control_mission_select s"
  by (simp_all add: reset_integral_def init_running_time_def position_poll_def ss_init_def
      update_r_def safety_timeout_def return_back_def feedback_def give_output_def Let_def
      split: option.splits prod.splits)

lemma setout_Z_steps [simp]:
  "setout_Z (reset_integral i s) = setout_Z s"
  "setout_Z (init_running_time i s) = setout_Z s"
  "setout_Z (position_poll i s) = setout_Z s"
  "setout_Z (ss_init c s) = setout_Z s"
  "setout_Z (update_r s) = setout_Z s"
  "setout_Z (safety_timeout c s) = setout_Z s"
  "setout_Z (feedback i r s) = setout_Z s"
  "setout_Z (give_output c s) = setout_Z s"
  by (simp_all add: reset_integral_def init_running_time_def position_poll_def ss_init_def
      update_r_def safety_timeout_def feedback_def give_output_def Let_def
      split: option.splits prod.splits)

lemma return_back_to_0m_able_steps [simp]:
  "return_back_to_0m_able (reset_integral i s) = return_back_to_0m_able s"
  "return_back_to_0m_able (init_running_time i s) = return_back_to_0m_able s"
  "return_back_to_0m_able (position_poll i s) = return_back_to_0m_able s"
  "return_back_to_0m_able (ss_init c s) = return_back_to_0m_able s"
  "return_back_to_0m_able (update_r s) = return_back_to_0m_able s"
  "return_back_to_0m_able (safety_timeout c s) = return_back_to_0m_able s"
  "return_back_to_0m_able (return_back c s) = return_back_to_0m_able s"
  "return_back_to_0m_able (feedback i r s) = return_back_to_0m_able s"
  "return_back_to_0m_able (give_output c s) = return_back_to_0m_able s"
  by (simp_all add: reset_integral_def init_running_time_def position_poll_def ss_init_def
      update_r_def safety_timeout_def return_back_def feedback_def give_output_def Let_def
      split: option.splits prod.splits)

lemma mordern_control_able_steps [simp]:
  "mordern_control_able (reset_integral i s) = mordern_control_able s"
  "mordern_control_able (init_running_time i s) = mordern_control_able s"
  "mordern_control_able (position_poll i s) = mordern_control_able s"
  "mordern_control_able (ss_init c s) = mordern_control_able s"
  "mordern_control_able (update_r s) = mordern_control_able s"
  "mordern_control_able (mission1 s) = mordern_control_able s"
  "mordern_control_able (mission2 c s) = mordern_control_able s"
  "mordern_control_able (safety_timeout c s) = mordern_control_able s"
  "mordern_control_able (return_back c s) = mordern_control_able s"
  by (simp_all add: reset_integral_def init_running_time_def position_poll_def ss_init_def
      update_r_def mission1_def mission2_def safety_timeout_def return_back_def Let_def
      split: option.splits prod.splits)

lemma cywmc_able_steps [simp]:
  "cywmc_able (reset_integral i s) = cywmc_able s"
  "cywmc_able (init_running_time i s) = cywmc_able s"
  "cywmc_able (position_poll i s) = cywmc_able s"
  "cywmc_able (ss_init c s) = cywmc_able s"
  "cywmc_able (update_r s) = cywmc_able s"
  "cywmc_able (mission1 s) = cywmc_able s"
  "cywmc_able (mission2 c s) = cywmc_able s"
  "cywmc_able (return_back c s) = cywmc_able s"
  "cywmc_able (feedback i r s) = cywmc_able s"
  "cywmc_able (give_output c s) = cywmc_able s"
  by (simp_all add: reset_integral_def init_running_time_def position_poll_def ss_init_def
      update_r_def mission1_def mission2_def return_back_def feedback_def give_output_def
      Let_def split: option.splits prod.splits)

lemma cywmc_able_mission [simp]:
  "cywmc_able (mission c s) = cywmc_able s"
  by (simp add: mission_def Let_def)

lemma run_t_steps [simp]:
  "run_t (reset_integral i s) = run_t s"
  "run_t (position_poll i s) = run_t s"
  "run_t (ss_init c s) = run_t s"
  "run_t (update_r s) = run_t s"
  "run_t (mission1 s) = run_t s"
  "run_t (mission2 c s) = run_t s"
  "run_t (safety_timeout c s) = run_t s"
  "run_t (return_back c s) = run_t s"
  "run_t (feedback i r s) = run_t s"
  "run_t (give_output c s) = run_t s"
  by (simp_all add: reset_integral_def position_poll_def ss_init_def update_r_def
      mission1_def mission2_def safety_timeout_def return_back_def feedback_def
      give_output_def Let_def split: option.splits prod.splits)

lemma run_t_mission [simp]:
  "run_t (mission c s) = run_t s"
  by (simp add: mission_def Let_def)

lemma pos_current_z_steps [simp]:
  "pos_current_z (reset_integral i s) = pos_current_z s"
  "pos_current_z (init_running_time i s) = pos_current_z s"
  "pos_current_z (ss_init c s) = pos_current_z s"
  "pos_current_z (update_r s) = pos_current_z s"
  "pos_current_z (mission1 s) = pos_current_z s"
  "pos_current_z (mission2 c s) = pos_current_z s"
  "pos_current_z (safety_timeout c s) = pos_current_z s"
  "pos_current_z (return_back c s) = pos_current_z s"
  by (simp_all add: reset_integral_def init_running_time_def ss_init_def update_r_def
      mission1_def mission2_def safety_timeout_def return_back_def Let_def)

lemma pos_current_z_mission [simp]:
  "pos_current_z (mission c s) = pos_current_z s"
  by (simp add: mission_def Let_def)

lemma pos_current_vz_steps [simp]:
  "pos_current_vz (reset_integral i s) = pos_current_vz s"
  "pos_current_vz (init_running_time i s) = pos_current_vz s"
  "pos_current_vz (ss_init c s) = pos_current_vz s"
  "pos_current_vz (update_r s) = pos_current_vz s"
  "pos_current_vz (mission1 s) = pos_current_vz s"
  "pos_current_vz (mission2 c s) = pos_current_vz s"
  "pos_current_vz (safety_timeout c s) = pos_current_vz s"
  "pos_current_vz (return_back c s) = pos_current_vz s"
  by (simp_all add: reset_integral_def init_running_time_def ss_init_def update_r_def
      mission1_def mission2_def safety_timeout_def return_back_def Let_def)

lemma pos_current_vz_mission [simp]:
  "pos_current_vz (mission c s) = pos_current_vz s"
  by (simp add: mission_def Let_def)

lemma ss_k_steps [simp]:
  "ss_k (update_r s) = ss_k s"
  "ss_k (mission1 s) = ss_k s"
  "ss_k (mission2 c s) = ss_k s"
  "ss_k (safety_timeout c s) = ss_k s"
  "ss_k (return_back c s) = ss_k s"
  by (simp_all add: update_r_def mission1_def mission2_def safety_timeout_def
      return_back_def Let_def)

lemma ss_k_mission [simp]:
  "ss_k (mission c s) = ss_k s"
  by (simp add: mission_def Let_def)

lemma ss_r_steps [simp]:
  "ss_r (mission1 s) = ss_r s"
  "ss_r (mission2 c s) = ss_r s"
  "ss_r (safety_timeout c s) = ss_r s"
  "ss_r (return_back c s) = ss_r s"
  by (simp_all add: mission1_def mission2_def safety_timeout_def return_back_def Let_def)

lemma ss_r_mission [simp]:
  "ss_r (mission c s) = ss_r s"
  by (simp add: mission_def Let_def)

lemma ss_seted_steps [simp]:
  "ss_seted (reset_integral i s) = ss_seted s"
  "ss_seted (init_running_time i s) = ss_seted s"
  "ss_seted (position_poll i s) = ss_seted s"
  by (simp_all add: reset_integral_def init_running_time_def position_poll_def Let_def
      split: option.splits prod.splits)

lemma need_update_r_steps [simp]:
  "need_update_r (reset_integral i s) = need_update_r s"
  "need_update_r (init_running_time i s) = need_update_r s"
  "need_update_r (position_poll i s) = need_update_r s"
  "need_update_r (ss_init c s) = need_update_r s"
  by (simp_all add: reset_integral_def init_running_time_def position_poll_def ss_init_def
      Let_def split: option.splits prod.splits)

lemma ss_u_actual_steps [simp]:
  "ss_u_actual (give_output c s) = ss_u_actual s"
  by (simp add: give_output_def Let_def)

lemma ss_x_steps [simp]:
  "ss_x (give_output c s) = ss_x s"
  by (simp add: give_output_def Let_def)

lemma give_output_able_steps [simp]:
  "give_output_able (safety_timeout c s) = give_output_able s"
  by (simp add: safety_timeout_def Let_def)

lemma back_Z_aim_steps [simp]:
  "back_Z_aim (reset_integral i s) = back_Z_aim s"
  "back_Z_aim (init_running_time i s) = back_Z_aim s"
  "back_Z_aim (position_poll i s) = back_Z_aim s"
  "back_Z_aim (ss_init c s) = back_Z_aim s"
  "back_Z_aim (update_r s) = back_Z_aim s"
  "back_Z_aim (mission1 s) = back_Z_aim s"
  "back_Z_aim (mission2 c s) = back_Z_aim s"
  "back_Z_aim (safety_timeout c s) = back_Z_aim s"
  by (simp_all add: reset_integral_def init_running_time_def position_poll_def ss_init_def
      update_r_def mission1_def mission2_def safety_timeout_def Let_def
      split: option.splits prod.splits)

lemma back_Z_aim_mission [simp]:
  "back_Z_aim (mission c s) = back_Z_aim s"
  by (simp add: mission_def Let_def)

lemma thrust_sp_steps [simp]:
  "thrust_sp (reset_integral i s) = thrust_sp s"
  by (simp add: reset_integral_def Let_def)

lemma att_control_steps [simp]:
  "att_control (reset_integral i s) = att_control s"
  by (simp add: reset_integral_def Let_def)

lemma ss_u_scale_steps [simp]:
  "ss_u_scale (reset_integral i s) = ss_u_scale s"
  "ss_u_scale (init_running_time i s) = ss_u_scale s"
  "ss_u_scale (position_poll i s) = ss_u_scale s"
  "ss_u_scale (update_r s) = ss_u_scale s"
  "ss_u_scale (mission1 s) = ss_u_scale s"
  "ss_u_scale (mission2 c s) = ss_u_scale s"
  "ss_u_scale (safety_timeout c s) = ss_u_scale s"
  "ss_u_scale (return_back c s) = ss_u_scale s"
  "ss_u_scale (feedback i r s) = ss_u_scale s"
  by (simp_all add: reset_integral_def init_running_time_def position_poll_def update_r_def
      mission1_def mission2_def safety_timeout_def return_back_def feedback_def Let_def
      split: option.splits prod.splits)

lemma ss_u_scale_mission [simp]:
  "ss_u_scale (mission c s) = ss_u_scale s"
  by (simp add: mission_def Let_def)

lemma is_msl_t_set_steps [simp]:
  "is_msl_t_set (reset_integral i s) = is_msl_t_set s"
  "is_msl_t_set (init_running_time i s) = is_msl_t_set s"
  "is_msl_t_set (position_poll i s) = is_msl_t_set s"
  "is_msl_t_set (ss_init c s) = is_msl_t_set s"
  "is_msl_t_set (update_r s) = is_msl_t_set s"
  by (simp_all add: reset_integral_def init_running_time_def position_poll_def ss_init_def
      update_r_def Let_def split: option.splits prod.splits)

subsection \<open>Mission sequencer\<close>

lemma flt_irrefl: "\<not> flt x x"
  by (cases x) simp_all

lemma mission1_at_threshold:
  assumes "run_t s = (if is_msl_t_set s then ms1_t s 0 else Fin 5)"
  shows "mission1 s =
          (if is_msl_t_set s then s
           else s\<lparr>ms1_t := (ms1_t s)(0 := Fin 5, 1 := Fin 15, 2 := Fin 15, 3 := Fin 15),
                  is_msl_t_set := True\<rparr>)
            \<lparr>return_back_to_0m_able := True, modern_control_mission_select := 0,
             start_return_back_runt := run_t s\<rparr>"
  using assms by (simp add: mission1_def Let_def fgt_def flt_irrefl)

lemma mission2_at_threshold:
  assumes "run_t s = (if is_msl_t_set s then ms1_t s 0 else mission_2_time_still c)"
  shows "mission2 c s =
          (if is_msl_t_set s then s
           else s\<lparr>ms1_t := (ms1_t s)(0 := mission_2_time_still c, 1 := mission_2_time_height c),
                  is_msl_t_set := True\<rparr>)
            \<lparr>return_back_to_0m_able := True, modern_control_mission_select := 0,
             start_return_back_runt := run_t s\<rparr>"
  using assms by (simp add: mission2_def Let_def fgt_def flt_irrefl)

lemma mission_select_zero:
  "modern_control_mission_select s = 0 \<Longrightarrow> modern_control_mission_select (mission c s) = 0"
  by (simp add: mission_def Let_def)

lemma sequencer_select_zero:
  "modern_control_mission_select s = 0 \<Longrightarrow> modern_control_mission_select (sequencer c i s) = 0"
  by (simp add: sequencer_def mission_select_zero)

lemma cycle_select_zero:
  "modern_control_mission_select s = 0 \<Longrightarrow>
   modern_control_mission_select (control_attitude_rates c i s) = 0"
  by (simp add: control_attitude_rates_def sequencer_select_zero Let_def)

lemma run_cycles_select_zero:
  "modern_control_mission_select s = 0 \<Longrightarrow>
   modern_control_mission_select (run_cycles c s cycles) = 0"
  by (induction cycles arbitrary: s) (simp_all add: cycle_select_zero)

lemma rest_of_cycle_select_zero:
  "modern_control_mission_select s = 0 \<Longrightarrow>
   modern_control_mission_select (give_output c (feedback i r (return_back c (safety_timeout c s)))) = 0"
  by simp

text \<open>
  C10. In a cycle of mission 1 or 2 whose elapsed time \<^verbatim>\<open>run_t\<close> equals the first threshold
  (\<^verbatim>\<open>ms1_t[0]\<close>, that is 5 s for mission 1 and the stand-still time for mission 2 when the
  time plan is set in this cycle), neither the stand-still branch nor a hold branch runs:
  the output stays enabled, the commanded altitude and the reference-update request are
  untouched, the return is switched on with its origin at \<^verbatim>\<open>run_t\<close> and the mission selector
  is cleared. The selector then stays cleared through the rest of the cycle and every later
  cycle, so no hold phase ever runs.
\<close>

theorem mission_at_first_threshold:
  assumes "modern_control_mission_able c"
    and "modern_control_mission_select s = 1 \<and>
           run_t s = (if is_msl_t_set s then ms1_t s 0 else Fin 5)
         \<or> modern_control_mission_select s = 2 \<and>
           run_t s = (if is_msl_t_set s then ms1_t s 0 else mission_2_time_still c)"
  shows "return_back_to_0m_able (mission c s)
       \<and> modern_control_mission_select (mission c s) = 0
       \<and> start_return_back_runt (mission c s) = run_t s
       \<and> give_output_able (mission c s)
       \<and> setout_Z (mission c s) = setout_Z s
       \<and> need_update_r (mission c s) = need_update_r s
       \<and> (\<forall>cycles. modern_control_mission_select
             (run_cycles c (give_output c (feedback i r (return_back c (safety_timeout c (mission c s))))) cycles) = 0)"
proof -
  from assms(2) have m: "mission c s =
      (if modern_control_mission_select s = 1 then
         (if is_msl_t_set s then s\<lparr>mordern_control_able := True, give_output_able := True\<rparr>
          else s\<lparr>mordern_control_able := True, give_output_able := True,
                 ms1_t := (ms1_t s)(0 := Fin 5, 1 := Fin 15, 2 := Fin 15, 3 := Fin 15),
                 is_msl_t_set := True\<rparr>)
       else
         (if is_msl_t_set s then s\<lparr>mordern_control_able := True, give_output_able := True\<rparr>
          else s\<lparr>mordern_control_able := True, give_output_able := True,
                 ms1_t := (ms1_t s)(0 := mission_2_time_still c, 1 := mission_2_time_height c),
                 is_msl_t_set := True\<rparr>))
        \<lparr>return_back_to_0m_able := True, modern_control_mission_select := 0,
         start_return_back_runt := run_t s\<rparr>"
    using assms(1) by (auto simp: mission_def Let_def mission1_at_threshold mission2_at_threshold)
  have z: "modern_control_mission_select (mission c s) = 0"
    by (subst m) simp
  have "\<forall>cycles. modern_control_mission_select
             (run_cycles c (give_output c (feedback i r (return_back c (safety_timeout c (mission c s))))) cycles) = 0"
    using z by (simp add: run_cycles_select_zero rest_of_cycle_select_zero)
  moreover have "return_back_to_0m_able (mission c s)
       \<and> start_return_back_runt (mission c s) = run_t s
       \<and> give_output_able (mission c s)
       \<and> setout_Z (mission c s) = setout_Z s
       \<and> need_update_r (mission c s) = need_update_r s"
    by (subst m)+ simp
  ultimately show ?thesis using z by simp
qed

theorem mission_at_first_threshold_witness:
  "modern_control_mission_able config_example
   \<and> modern_control_mission_select (state_mission1 5) = 1
   \<and> run_t (state_mission1 5) = Fin 5
   \<and> return_back_to_0m_able (mission config_example (state_mission1 5))
   \<and> modern_control_mission_select (mission config_example (state_mission1 5)) = 0
   \<and> give_output_able (mission config_example (state_mission1 5))
   \<and> setout_Z (mission config_example (state_mission1 5)) = Fin 0"
  using mission_at_first_threshold [of config_example "state_mission1 5"]
  by (simp add: config_example_def state_mission1_def state_armed_def state_zero_def)

lemma mission1_default_plan:
  assumes "\<not> is_msl_t_set s" "run_t s = Fin r"
  shows "mission1 s =
     (let s1 = s\<lparr>ms1_t := (ms1_t s)(0 := Fin 5, 1 := Fin 15, 2 := Fin 15, 3 := Fin 15),
                 is_msl_t_set := True\<rparr>
      in if r < 5 then
           s1\<lparr>give_output_able := False,
              att_control := (att_control s)(0 := Fin 0, 1 := Fin 0, 2 := Fin 0),
              thrust_sp := Fin 0\<rparr>
         else if 5 < r \<and> r < 20 then s1\<lparr>need_update_r := True, setout_Z := Fin 1\<rparr>
         else if 5 < r \<and> r < 35 then s1\<lparr>need_update_r := True, setout_Z := Fin 1.5\<rparr>
         else if 5 < r \<and> r < 50 then s1\<lparr>need_update_r := True, setout_Z := Fin 2\<rparr>
         else s1\<lparr>return_back_to_0m_able := True, modern_control_mission_select := 0,
                 start_return_back_runt := Fin r\<rparr>)"
  using assms by (simp add: mission1_def Let_def fgt_def)

lemma mission_select_1:
  assumes "modern_control_mission_able c" "modern_control_mission_select s = 1"
  shows "mission c s = mission1 (s\<lparr>mordern_control_able := True, give_output_able := True\<rparr>)"
proof -
  have "modern_control_mission_select
          (mission1 (s\<lparr>mordern_control_able := True, give_output_able := True\<rparr>)) \<noteq> 2"
    using assms(2) by (simp add: mission1_def Let_def)
  with assms show ?thesis by (simp add: mission_def Let_def)
qed

lemma spec_phase_plan1:
  "spec_phase [5, 15, 15, 15] r =
     (if 0 \<le> r \<and> r < 5 then Some 0 else if 5 \<le> r \<and> r < 20 then Some 1
      else if 20 \<le> r \<and> r < 35 then Some 2 else if 35 \<le> r \<and> r < 50 then Some 3 else None)"
  by (simp add: spec_phase_def)

lemma mission1_follows_rule:
  assumes "modern_control_mission_able c" "modern_control_mission_select s = 1"
    "\<not> is_msl_t_set s" "run_t s = Fin r" "0 \<le> r" "r \<noteq> 5"
  shows "(spec_phase [5, 15, 15, 15] r = Some 0 \<longrightarrow>
            \<not> give_output_able (mission c s) \<and> thrust_sp (mission c s) = Fin 0
            \<and> (\<forall>k < 3. att_control (mission c s) k = Fin 0))
       \<and> (spec_phase [5, 15, 15, 15] r = Some 1 \<longrightarrow>
            setout_Z (mission c s) = Fin 1 \<and> need_update_r (mission c s))
       \<and> (spec_phase [5, 15, 15, 15] r = Some 2 \<longrightarrow>
            setout_Z (mission c s) = Fin 1.5 \<and> need_update_r (mission c s))
       \<and> (spec_phase [5, 15, 15, 15] r = Some 3 \<longrightarrow>
            setout_Z (mission c s) = Fin 2 \<and> need_update_r (mission c s))
       \<and> (spec_phase [5, 15, 15, 15] r = None \<longrightarrow>
            return_back_to_0m_able (mission c s)
            \<and> modern_control_mission_select (mission c s) = 0)"
proof -
  have m: "mission c s = mission1 (s\<lparr>mordern_control_able := True, give_output_able := True\<rparr>)"
    using assms(1,2) by (rule mission_select_1)
  have k: "\<And>k::nat. k < 3 \<Longrightarrow> k = 0 \<or> k = 1 \<or> k = 2" by auto
  show ?thesis
    unfolding m spec_phase_plan1
    using assms(3-6) k
    by (subst mission1_default_plan [where r = r], simp, simp)+
       (auto simp: Let_def)
qed

text \<open>
  C2, at the failing input. Mission 1 with the thresholds [5, 15, 15, 15] at
  \<^verbatim>\<open>run_t\<close> = 5: the spec's rule selects phase 1 (5 lies in [5, 20)), the code switches to the
  return, clears the mission and neither sets the commanded altitude nor requests a
  reference update. (\<open>mission1_follows_rule\<close> above: at every other elapsed time from 0 on,
  the code does what the rule says.)
\<close>

theorem mission1_threshold_skips_holds:
  "spec_phase [5, 15, 15, 15] 5 = Some 1
   \<and> return_back_to_0m_able (mission config_example (state_mission1 5))
   \<and> modern_control_mission_select (mission config_example (state_mission1 5)) = 0
   \<and> setout_Z (mission config_example (state_mission1 5)) = Fin 0
   \<and> \<not> need_update_r (mission config_example (state_mission1 5))"
  by (simp add: spec_phase_def mission_def mission1_def Let_def fgt_def
      config_example_def state_mission1_def state_armed_def state_zero_def)

lemma mission1_examples:
  "spec_phase [5, 15, 15, 15] 12 = Some 1
   \<and> setout_Z (mission config_example (state_mission1 12)) = Fin 1
   \<and> \<not> return_back_to_0m_able (mission config_example (state_mission1 12))
   \<and> spec_phase [5, 15, 15, 15] 61 = None
   \<and> return_back_to_0m_able (mission config_example (state_mission1 61))"
  by (simp add: spec_phase_def mission_def mission1_def Let_def fgt_def
      config_example_def state_mission1_def state_armed_def state_zero_def)

subsection \<open>Returning\<close>

lemma mission_when_returning:
  assumes "modern_control_mission_select s \<noteq> 1" "modern_control_mission_select s \<noteq> 2"
  shows "setout_Z (mission c s) = setout_Z s"
    and "return_back_to_0m_able (mission c s) = return_back_to_0m_able s"
    and "modern_control_mission_select (mission c s) = modern_control_mission_select s"
  using assms by (simp_all add: mission_def Let_def)



lemma position_poll_z:
  "pos_current_z (position_poll i s) =
     (case pos_update i of Some zv \<Rightarrow> fst zv | None \<Rightarrow> pos_current_z s)"
  "pos_current_vz (position_poll i s) =
     (case pos_update i of Some zv \<Rightarrow> snd zv | None \<Rightarrow> pos_current_vz s)"
  by (simp_all add: position_poll_def split: option.splits prod.splits)







subsection \<open>State-space feedback\<close>

lemma fadd_commute: "fadd a b = fadd b a"
  by (cases a; cases b) simp_all

lemma vec_add_commute: "vec_add n a b = vec_add n b a"
  by (rule ext) (simp add: vec_add_def fadd_commute)

lemma mission_mordern [simp]:
  "mordern_control_able (mission c s) = (modern_control_mission_able c \<or> mordern_control_able s)"
  by (simp add: mission_def Let_def)

lemma sequencer_mordern:
  "mordern_control_able (sequencer c i s) = (modern_control_mission_able c \<or> mordern_control_able s)"
  by (simp add: sequencer_def)

lemma give_output_scaled:
  assumes "give_output_able s"
  shows "ss_u_scale (give_output c s) 0 =
           fdiv (fadd (ss_u_actual s 0) (fmul (ss_m c) (g c))) (T_max c)"
    and "ss_u_scale (give_output c s) 1 = fdiv (ss_u_actual s 1) (Mx_max c)"
    and "ss_u_scale (give_output c s) 2 = fdiv (ss_u_actual s 2) (My_max c)"
    and "ss_u_scale (give_output c s) 3 = fdiv (ss_u_actual s 3) (Mz_max c)"
    and "thrust_sp (give_output c s) = ss_u_scale (give_output c s) 0"
    and "cywmc_angle_control c \<Longrightarrow> att_control (give_output c s) 0 = ss_u_scale (give_output c s) 1"
    and "cywmc_angle_control c \<Longrightarrow> att_control (give_output c s) 1 = ss_u_scale (give_output c s) 2"
    and "cywmc_angle_control c \<Longrightarrow> att_control (give_output c s) 2 = ss_u_scale (give_output c s) 3"
  using assms by (simp_all add: give_output_def Let_def)

lemma feedback_active:
  assumes "mordern_control_able s"
  shows "ss_u_actual (feedback i r s) =
           vec_sub 4 (ss_r s) (mat_vec 4 8 (ss_k s) (measured_state i r s))"
    and "ss_x (feedback i r s) =
           vec_add 8 (measured_state i r s)
             (vec_scale 8 (vec_add 8 (mat_vec 8 4 (ss_B s) (ss_u_actual (feedback i r s)))
                                     (mat_vec 8 8 (ss_A s) (measured_state i r s))) (dt i))"
    and "give_output_able (feedback i r s) = give_output_able s"
  using assms by (simp_all add: feedback_def Let_def)

lemma sequencer_position:
  "pos_current_z (sequencer c i s) =
     (case pos_update i of Some zv \<Rightarrow> fst zv | None \<Rightarrow> pos_current_z s)"
  "pos_current_vz (sequencer c i s) =
     (case pos_update i of Some zv \<Rightarrow> snd zv | None \<Rightarrow> pos_current_vz s)"
  by (simp_all add: sequencer_def position_poll_z cong: option.case_cong)

subsection \<open>One cycle of the example vehicle\<close>

lemma upt_8: "[0..<8] = [0, 1, 2, 3, 4, 5, 6, 7]"
  by code_simp

lemma upt_4: "[0..<4] = [0, 1, 2, 3]"
  by code_simp

lemma ss_init_first:
  assumes "ss_seted s = 0"
  shows "ss_k (ss_init c s) (0, j) = (if j = 0 then Fin 3 else if j = 4 then Fin 4 else Fin 0)"
    and "ss_r (ss_init c s) 0 = fmul (ss_G_scale_0 c) (setout_Z s)"
proof -
  show "ss_k (ss_init c s) (0, j) = (if j = 0 then Fin 3 else if j = 4 then Fin 4 else Fin 0)"
    using assms by (simp add: ss_init_def Let_def setZero_mat_def)
  have z: "\<And>a. fadd (Fin 0) a = a" "\<And>a. fadd a (Fin 0) = a"
    subgoal for a by (cases a) simp_all
    subgoal for a by (cases a) simp_all
    done
  show "ss_r (ss_init c s) 0 = fmul (ss_G_scale_0 c) (setout_Z s)"
    using assms
    by (simp add: ss_init_def Let_def setZero_mat_def setZero_vec_def mat_vec_def row_dot_def
        upt_4 z)
qed

lemma sequencer_first_cycle:
  assumes "ss_seted s = 0" "\<not> need_update_r s"
  shows "ss_k (sequencer c i s) (0, j) = (if j = 0 then Fin 3 else if j = 4 then Fin 4 else Fin 0)"
    and "ss_r (sequencer c i s) 0 = fmul (ss_G_scale_0 c) (setout_Z s)"
proof -
  let ?q = "position_poll i (init_running_time i s)"
  have q: "ss_seted ?q = 0" "\<not> need_update_r (ss_init c ?q)" "setout_Z ?q = setout_Z s"
    using assms by simp_all
  show "ss_k (sequencer c i s) (0, j) = (if j = 0 then Fin 3 else if j = 4 then Fin 4 else Fin 0)"
    using ss_init_first(1) [OF q(1), of c j] by (simp add: sequencer_def)
  have "ss_r (sequencer c i s) 0 = ss_r (update_r (ss_init c ?q)) 0"
    by (simp add: sequencer_def)
  also have "\<dots> = ss_r (ss_init c ?q) 0"
    using q(2) by (simp add: update_r_def)
  also have "\<dots> = fmul (ss_G_scale_0 c) (setout_Z s)"
    using ss_init_first(2) [OF q(1), of c] q(3) by simp
  finally show "ss_r (sequencer c i s) 0 = fmul (ss_G_scale_0 c) (setout_Z s)" .
qed

lemma row_dot_gain_0:
  assumes "\<And>j. K (0, j) = (if j = 0 then Fin 3 else if j = 4 then Fin 4 else Fin 0)"
    and "\<And>j. j < 8 \<Longrightarrow> x j = Fin (v j)"
  shows "row_dot 8 K 0 x = Fin (3 * v 0 + 4 * v 4)"
  using assms(2) [of 0] assms(2) [of 1] assms(2) [of 2] assms(2) [of 3]
        assms(2) [of 4] assms(2) [of 5] assms(2) [of 6] assms(2) [of 7]
  by (simp add: row_dot_def upt_8 assms(1))

lemma upt_3: "[0..<3] = [0, 1, 2]"
  by code_simp

lemma cycle_disabled:
  "\<not> cywmc_able s \<Longrightarrow> control_attitude_rates c i s = reset_integral i s"
  by (simp add: control_attitude_rates_def Let_def)

lemma cycle_enabled:
  "cywmc_able s \<Longrightarrow> control_attitude_rates c i s =
     give_output c (feedback i (rates_of i) (sequencer c i (reset_integral i s)))"
  by (simp add: control_attitude_rates_def Let_def)

lemma run_cycles_disabled:
  "\<not> cywmc_able s \<Longrightarrow>
     \<not> cywmc_able (run_cycles c s cycles)
     \<and> thrust_sp (run_cycles c s cycles) = thrust_sp s
     \<and> att_control (run_cycles c s cycles) = att_control s"
  by (induction cycles arbitrary: s) (simp_all add: cycle_disabled)

lemma sequencer_run_t:
  "run_t (sequencer c i s) = run_t (init_running_time i s)"
  by (simp add: sequencer_def)

lemma sequencer_cywmc:
  "cywmc_able (sequencer c i s) =
     (cywmc_able s \<and> \<not> fgt (run_t (init_running_time i s)) (safety_return_time c))"
proof -
  have "\<And>q. cywmc_able (safety_timeout c q) =
          (cywmc_able q \<and> \<not> fgt (run_t q) (safety_return_time c))"
    by (simp add: safety_timeout_def)
  then show ?thesis by (simp add: sequencer_def)
qed

lemma sequencer_give_output_returning:
  assumes "returning s"
  shows "give_output_able (sequencer c i s) =
           (modern_control_mission_able c
            \<and> \<not> flt (fneg (case pos_update i of Some zv \<Rightarrow> fst zv | None \<Rightarrow> pos_current_z s))
                     (Fin 0.2))"
proof -
  let ?e = "update_r (ss_init c (position_poll i (init_running_time i s)))"
  let ?p = "safety_timeout c (mission c ?e)"
  have sel: "modern_control_mission_select ?e \<noteq> 1" "modern_control_mission_select ?e \<noteq> 2"
    using assms by (simp_all add: returning_def)
  have m: "give_output_able (mission c ?e) = modern_control_mission_able c"
    using sel by (simp add: mission_def Let_def)
  have r: "return_back_to_0m_able ?p"
    using assms sel by (simp add: mission_when_returning returning_def)
  have z: "pos_current_z ?p =
             (case pos_update i of Some zv \<Rightarrow> fst zv | None \<Rightarrow> pos_current_z s)"
    by (simp add: position_poll_z cong: option.case_cong)
  have "give_output_able (return_back c ?p) =
          (give_output_able ?p \<and> \<not> flt (fneg (pos_current_z ?p)) (Fin 0.2))"
    using r by (simp add: return_back_def Let_def)
  then show ?thesis unfolding sequencer_def z using m by simp
qed

lemma cycle_thrust:
  assumes "cywmc_able s"
    and "mordern_control_able (sequencer c i (reset_integral i s))"
    and "give_output_able (sequencer c i (reset_integral i s))"
  shows "thrust_sp (control_attitude_rates c i s) =
           fdiv (fadd (fsub (ss_r (sequencer c i (reset_integral i s)) 0)
                            (row_dot 8 (ss_k (sequencer c i (reset_integral i s))) 0
                               (measured_state i (rates_of i) (sequencer c i (reset_integral i s)))))
                      (fmul (ss_m c) (g c)))
                (T_max c)"
proof -
  let ?p = "sequencer c i (reset_integral i s)"
  have g: "give_output_able (feedback i (rates_of i) ?p)"
    using feedback_active(3) [OF assms(2)] assms(3) by simp
  have "thrust_sp (control_attitude_rates c i s) =
          fdiv (fadd (ss_u_actual (feedback i (rates_of i) ?p) 0) (fmul (ss_m c) (g c))) (T_max c)"
    using give_output_scaled(1,5) [OF g, of c] by (simp add: cycle_enabled [OF assms(1)])
  then show ?thesis
    by (simp add: feedback_active(1) [OF assms(2)] vec_sub_def mat_vec_def)
qed

lemma rates_of_example: "j < 3 \<Longrightarrow> rates_of (inputs_example now z) j = Fin 0"
  by (simp add: rates_of_def inputs_example_def gyro_rates_def correction_unit_def
      setZero_vec_def mat_vec_def vec_sub_def row_dot_def upt_3 fsub_def)

lemma measured_state_example:
  assumes "pos_current_z p = Fin (- 1)" "pos_current_vz p = Fin 0" "j < 8"
  shows "measured_state (inputs_example now z) (rates_of (inputs_example now z)) p j =
           Fin (if j = 0 then 1 else 0)"
proof -
  from assms(3) consider "j = 0" | "j = 1" | "j = 2" | "j = 3" | "j = 4" | "j = 5" | "j = 6"
    | "j = 7" by linarith
  then show ?thesis
    using assms(1,2) rates_of_example [of 0 now z] rates_of_example [of 1 now z]
      rates_of_example [of 2 now z]
    by cases (simp_all add: measured_state_def inputs_example_def)
qed

lemma state_late_facts:
  "cywmc_able state_late" "returning state_late" "ss_seted state_late = 0"
  "\<not> need_update_r state_late" "setout_Z state_late = Fin 0"
  "arm_t0 state_late = Fin 1000000"
  by (simp_all add: state_late_def state_armed_def state_zero_def returning_def)

lemma config_example_fields:
  "ss_m config_example = Fin 1" "g config_example = Fin 10" "T_max config_example = Fin 20"
  "ss_G_scale_0 config_example = Fin 3" "safety_return_time config_example = Fin 100"
  "modern_control_mission_able config_example" "return_degress_rate config_example = Fin 0.9"
  by (simp_all add: config_example_def)

lemma late_cycle:
  fixes now :: nat
  defines "i \<equiv> inputs_example now (Fin (- 1))"
  defines "p \<equiv> sequencer config_example i (reset_integral i state_late)"
  shows "mordern_control_able p" and "give_output_able p"
    and "run_t p = Fin ((real now - 1000000) / 1000000)"
    and "thrust_sp (control_attitude_rates config_example i state_late) = Fin (7 / 20)"
    and "ss_r p 0 = Fin 0"
    and "row_dot 8 (ss_k p) 0 (measured_state i (rates_of i) p) = Fin 3"
proof -
  have r: "reset_integral i state_late = state_late"
    by (simp add: reset_integral_def i_def inputs_example_def)
  show m: "mordern_control_able p"
    by (simp add: p_def sequencer_mordern config_example_fields)
  show g: "give_output_able p"
    unfolding p_def r
    by (simp add: sequencer_give_output_returning [OF state_late_facts(2)] config_example_fields
        i_def inputs_example_def)
  show "run_t p = Fin ((real now - 1000000) / 1000000)"
    unfolding p_def r
    by (simp add: sequencer_run_t init_running_time_def state_late_facts i_def
        inputs_example_def fsub_def Let_def)
  have k: "\<And>j. ss_k p (0, j) = (if j = 0 then Fin 3 else if j = 4 then Fin 4 else Fin 0)"
    unfolding p_def r
    by (rule sequencer_first_cycle(1) [OF state_late_facts(3,4)])
  show rr: "ss_r p 0 = Fin 0"
    unfolding p_def r
    by (simp add: sequencer_first_cycle(2) [OF state_late_facts(3,4)] state_late_facts
        config_example_fields)
  have z: "pos_current_z p = Fin (- 1)" "pos_current_vz p = Fin 0"
    unfolding p_def r by (simp_all add: sequencer_position i_def inputs_example_def)
  have x: "\<And>j. j < 8 \<Longrightarrow> measured_state i (rates_of i) p j = Fin (if j = 0 then 1 else 0)"
    unfolding i_def by (rule measured_state_example [OF z [unfolded i_def]])
  show d: "row_dot 8 (ss_k p) 0 (measured_state i (rates_of i) p) = Fin 3"
    using row_dot_gain_0 [of "ss_k p" "measured_state i (rates_of i) p"
        "\<lambda>j. if j = 0 then 1 else 0", OF k x]
    by simp
  show "thrust_sp (control_attitude_rates config_example i state_late) = Fin (7 / 20)"
    using cycle_thrust [OF state_late_facts(1) m [unfolded p_def] g [unfolded p_def]]
    by (simp add: d [unfolded p_def] rr [unfolded p_def] config_example_fields fsub_def)
qed


lemma return_back_output_off:
  "\<not> give_output_able s \<Longrightarrow> \<not> give_output_able (return_back c s)"
  by (simp add: return_back_def Let_def)

lemma give_output_off:
  assumes "\<not> give_output_able s"
  shows "thrust_sp (give_output c s) = Fin 0"
    and "ss_u_scale (give_output c s) = ss_u_scale s"
  using assms by (simp_all add: give_output_def Let_def)

lemma feedback_keeps_output_flag [simp]:
  "give_output_able (feedback i r s) = give_output_able s"
  "mordern_control_able (feedback i r s) = mordern_control_able s"
  by (simp_all add: feedback_def Let_def)

lemma mordern_control_able_give_output [simp]:
  "mordern_control_able (give_output c s) = mordern_control_able s"
  by (simp add: give_output_def Let_def)

lemma sequencer_stand_still:
  assumes "modern_control_mission_able c" "modern_control_mission_select s = 1"
    "\<not> is_msl_t_set s" "run_t (init_running_time i s) = Fin r" "r < 5"
  shows "\<not> give_output_able (sequencer c i s)"
proof -
  let ?e = "update_r (ss_init c (position_poll i (init_running_time i s)))"
  let ?e' = "?e\<lparr>mordern_control_able := True, give_output_able := True\<rparr>"
  have sel: "modern_control_mission_select ?e = 1" using assms(2) by simp
  have t: "\<not> is_msl_t_set ?e'" "run_t ?e' = Fin r" using assms(3,4) by simp_all
  have "mission c ?e = mission1 ?e'"
    using assms(1) sel by (rule mission_select_1)
  then have "\<not> give_output_able (mission c ?e)"
    using assms(5) by (simp add: mission1_default_plan [OF t] Let_def)
  then have "\<not> give_output_able (safety_timeout c (mission c ?e))" by simp
  then show ?thesis unfolding sequencer_def by (rule return_back_output_off)
qed

lemma sequencer_first_scale:
  assumes "ss_seted s = 0"
  shows "ss_u_scale (sequencer c i s) k = Fin 0"
proof -
  have "ss_seted (position_poll i (init_running_time i s)) = 0" using assms by simp
  then have "ss_u_scale (ss_init c (position_poll i (init_running_time i s))) = setZero_vec"
    by (simp add: ss_init_def Let_def)
  then show ?thesis by (simp add: sequencer_def setZero_vec_def)
qed

lemma state_mission1_facts:
  "cywmc_able (state_mission1 t)" "modern_control_mission_select (state_mission1 t) = 1"
  "\<not> is_msl_t_set (state_mission1 t)" "ss_seted (state_mission1 t) = 0"
  "\<not> need_update_r (state_mission1 t)" "arm_t0 (state_mission1 t) = Fin 1000000"
  "setout_Z (state_mission1 t) = Fin 0"
  by (simp_all add: state_mission1_def state_armed_def state_zero_def)

subsection \<open>The claims on the controller cycle\<close>



text \<open>
  C1, counterexample. The example vehicle is in mission 1, one second after arming: the
  stand-still phase. The controller is enabled and the feedback runs, the thrust demand is
  \<open>u\<^sub>0 = -3\<close>, for which the normalisation would give \<open>(-3 + 1 * 10) / 20 = 7/20\<close>; but the
  phase has cleared \<^verbatim>\<open>give_output_able\<close>, so \<^verbatim>\<open>ss_u_scale\<close> is not computed (it stays 0) and
  \<^verbatim>\<open>_thrust_sp\<close> is set to 0.
\<close>

theorem state_space_stand_still_counterexample:
  "cywmc_able (state_mission1 0) \<and> modern_control_mission_able config_example
   \<and> run_t (control_attitude_rates config_example (inputs_example 2000000 (Fin (- 1)))
               (state_mission1 0)) = Fin 1
   \<and> mordern_control_able (control_attitude_rates config_example
               (inputs_example 2000000 (Fin (- 1))) (state_mission1 0))
   \<and> ss_u_actual (control_attitude_rates config_example (inputs_example 2000000 (Fin (- 1)))
               (state_mission1 0)) 0 = Fin (- 3)
   \<and> fdiv (fadd (Fin (- 3)) (fmul (ss_m config_example) (g config_example)))
            (T_max config_example) = Fin (7 / 20)
   \<and> ss_u_scale (control_attitude_rates config_example (inputs_example 2000000 (Fin (- 1)))
               (state_mission1 0)) 0 = Fin 0
   \<and> thrust_sp (control_attitude_rates config_example (inputs_example 2000000 (Fin (- 1)))
               (state_mission1 0)) = Fin 0"
proof -
  let ?i = "inputs_example 2000000 (Fin (- 1))"
  let ?s = "state_mission1 0"
  let ?p = "sequencer config_example ?i (reset_integral ?i ?s)"
  let ?s' = "control_attitude_rates config_example ?i ?s"
  have r: "reset_integral ?i ?s = ?s"
    by (simp add: reset_integral_def inputs_example_def)
  have s': "?s' = give_output config_example (feedback ?i (rates_of ?i) ?p)"
    by (rule cycle_enabled) (rule state_mission1_facts)
  have t: "run_t (init_running_time ?i ?s) = Fin 1"
    by (simp add: init_running_time_def state_mission1_facts inputs_example_def fsub_def Let_def)
  have m: "mordern_control_able ?p"
    by (simp add: sequencer_mordern config_example_fields)
  have off: "\<not> give_output_able ?p"
    unfolding r
    by (rule sequencer_stand_still [OF config_example_fields(6) state_mission1_facts(2,3) t])
       simp
  have k: "\<And>j. ss_k ?p (0, j) = (if j = 0 then Fin 3 else if j = 4 then Fin 4 else Fin 0)"
    unfolding r by (rule sequencer_first_cycle(1) [OF state_mission1_facts(4,5)])
  have rr: "ss_r ?p 0 = Fin 0"
    unfolding r
    by (simp add: sequencer_first_cycle(2) [OF state_mission1_facts(4,5)] config_example_fields
        state_mission1_facts)
  have z: "pos_current_z ?p = Fin (- 1)" "pos_current_vz ?p = Fin 0"
    by (simp_all add: sequencer_position inputs_example_def)
  have x: "\<And>j. j < 8 \<Longrightarrow> measured_state ?i (rates_of ?i) ?p j = Fin (if j = 0 then 1 else 0)"
    by (rule measured_state_example [OF z])
  have d: "row_dot 8 (ss_k ?p) 0 (measured_state ?i (rates_of ?i) ?p) = Fin 3"
    using row_dot_gain_0 [of "ss_k ?p" "measured_state ?i (rates_of ?i) ?p"
        "\<lambda>j. if j = 0 then 1 else 0", OF k x]
    by simp
  have u: "ss_u_actual ?s' 0 = Fin (- 3)"
    unfolding s'
    by (simp add: feedback_active(1) [OF m] vec_sub_def mat_vec_def d rr fsub_def)
  have off': "\<not> give_output_able (feedback ?i (rates_of ?i) ?p)"
    using off by simp
  have sc: "ss_u_scale ?s' 0 = Fin 0"
    unfolding s' give_output_off(2) [OF off']
    unfolding r
    by (simp add: sequencer_first_scale [OF state_mission1_facts(4)])
  have th: "thrust_sp ?s' = Fin 0"
    unfolding s' by (rule give_output_off(1) [OF off'])
  have rt: "run_t ?s' = Fin 1"
    unfolding s' using t by (simp add: sequencer_run_t r)
  have mo: "mordern_control_able ?s'"
    unfolding s' using m by simp
  have n: "fdiv (fadd (Fin (- 3)) (fmul (ss_m config_example) (g config_example)))
            (T_max config_example) = Fin (7 / 20)"
    by (simp add: config_example_fields)
  from state_mission1_facts(1) [of 0] config_example_fields(6) rt mo u n sc th
  show ?thesis by blast
qed

text \<open>
  C1 (as amended). In a cycle with the controller enabled (\<^verbatim>\<open>cywmc_able\<close>) and the feedback
  active, the state vector is \<open>x = [-z, roll, pitch, yaw, -vz, roll rate, pitch rate, yaw
  rate]\<close> (the rates are the corrected gyro rates of the call), the demand is \<open>u = r - K x\<close>
  and the stored state is \<open>x + (A x + B u) dt\<close>; and in those of these cycles in which the
  output is enabled (\<^verbatim>\<open>give_output_able\<close> still set when the mission and the return have
  run) the normalised demands are \<open>(u\<^sub>0 + m g) / T_max\<close> for the thrust and \<open>u\<^sub>k\<close> over the
  maximum torque of the axis for the three torques, which become \<^verbatim>\<open>_thrust_sp\<close> and (with
  \<^verbatim>\<open>cywmc_angle_control\<close>) \<^verbatim>\<open>_att_control\<close>. Here \<open>p\<close> is the state the sequencer hands to the
  feedback: \<open>r\<close>, \<open>K\<close>, \<open>A\<close>, \<open>B\<close> are read from it.
\<close>

theorem state_space_cycle:
  fixes c :: cyw_config and i :: inputs and s :: cyw_state
  assumes "cywmc_able s" and "modern_control_mission_able c \<or> mordern_control_able s"
  defines "p \<equiv> sequencer c i (reset_integral i s)"
  defines "x \<equiv> measured_state i (rates_of i) p"
  defines "s' \<equiv> control_attitude_rates c i s"
  shows "x 0 = fneg (case pos_update i of Some zv \<Rightarrow> fst zv | None \<Rightarrow> pos_current_z s)
       \<and> x 1 = agl_roll i \<and> x 2 = agl_pitch i \<and> x 3 = agl_yaw i
       \<and> x 4 = fneg (case pos_update i of Some zv \<Rightarrow> snd zv | None \<Rightarrow> pos_current_vz s)
       \<and> x 5 = gyro_rates (selected_gyro i) (sensor_gyro i) (sensor_correction i)
                 (board_rotation i) (sensor_bias i) 0
       \<and> x 6 = gyro_rates (selected_gyro i) (sensor_gyro i) (sensor_correction i)
                 (board_rotation i) (sensor_bias i) 1
       \<and> x 7 = gyro_rates (selected_gyro i) (sensor_gyro i) (sensor_correction i)
                 (board_rotation i) (sensor_bias i) 2
       \<and> ss_u_actual s' = vec_sub 4 (ss_r p) (mat_vec 4 8 (ss_k p) x)
       \<and> ss_x s' = vec_add 8 x (vec_scale 8 (vec_add 8 (mat_vec 8 8 (ss_A p) x)
                                                       (mat_vec 8 4 (ss_B p) (ss_u_actual s'))) (dt i))
       \<and> (give_output_able p \<longrightarrow>
            ss_u_scale s' 0 = fdiv (fadd (ss_u_actual s' 0) (fmul (ss_m c) (g c))) (T_max c)
          \<and> ss_u_scale s' 1 = fdiv (ss_u_actual s' 1) (Mx_max c)
          \<and> ss_u_scale s' 2 = fdiv (ss_u_actual s' 2) (My_max c)
          \<and> ss_u_scale s' 3 = fdiv (ss_u_actual s' 3) (Mz_max c)
          \<and> thrust_sp s' = ss_u_scale s' 0
          \<and> (cywmc_angle_control c \<longrightarrow> att_control s' 0 = ss_u_scale s' 1
                \<and> att_control s' 1 = ss_u_scale s' 2 \<and> att_control s' 2 = ss_u_scale s' 3))"
proof -
  have m: "mordern_control_able p"
    using assms(2) by (simp add: p_def sequencer_mordern)
  have s': "s' = give_output c (feedback i (rates_of i) p)"
    using assms(1) by (simp add: s'_def p_def control_attitude_rates_def Let_def)
  have xs: "x 0 = fneg (case pos_update i of Some zv \<Rightarrow> fst zv | None \<Rightarrow> pos_current_z s)
       \<and> x 1 = agl_roll i \<and> x 2 = agl_pitch i \<and> x 3 = agl_yaw i
       \<and> x 4 = fneg (case pos_update i of Some zv \<Rightarrow> snd zv | None \<Rightarrow> pos_current_vz s)
       \<and> x 5 = gyro_rates (selected_gyro i) (sensor_gyro i) (sensor_correction i)
                 (board_rotation i) (sensor_bias i) 0
       \<and> x 6 = gyro_rates (selected_gyro i) (sensor_gyro i) (sensor_correction i)
                 (board_rotation i) (sensor_bias i) 1
       \<and> x 7 = gyro_rates (selected_gyro i) (sensor_gyro i) (sensor_correction i)
                 (board_rotation i) (sensor_bias i) 2"
    by (simp add: x_def measured_state_def p_def sequencer_position reset_integral_def
        rates_of_def split: option.splits)
  have u: "ss_u_actual s' = vec_sub 4 (ss_r p) (mat_vec 4 8 (ss_k p) x)"
    using feedback_active(1) [OF m] by (simp add: s' x_def)
  have xn: "ss_x s' = vec_add 8 x (vec_scale 8 (vec_add 8 (mat_vec 8 8 (ss_A p) x)
                                                       (mat_vec 8 4 (ss_B p) (ss_u_actual s'))) (dt i))"
    using feedback_active(2) [OF m, of i "rates_of i"]
    by (simp add: s' x_def vec_add_commute [of 8 "mat_vec 8 8 (ss_A p) _"])
  have out: "give_output_able p \<longrightarrow>
            ss_u_scale s' 0 = fdiv (fadd (ss_u_actual s' 0) (fmul (ss_m c) (g c))) (T_max c)
          \<and> ss_u_scale s' 1 = fdiv (ss_u_actual s' 1) (Mx_max c)
          \<and> ss_u_scale s' 2 = fdiv (ss_u_actual s' 2) (My_max c)
          \<and> ss_u_scale s' 3 = fdiv (ss_u_actual s' 3) (Mz_max c)
          \<and> thrust_sp s' = ss_u_scale s' 0
          \<and> (cywmc_angle_control c \<longrightarrow> att_control s' 0 = ss_u_scale s' 1
                \<and> att_control s' 1 = ss_u_scale s' 2 \<and> att_control s' 2 = ss_u_scale s' 3)"
  proof
    assume "give_output_able p"
    then have g: "give_output_able (feedback i (rates_of i) p)"
      using feedback_active(3) [OF m] by simp
    show "ss_u_scale s' 0 = fdiv (fadd (ss_u_actual s' 0) (fmul (ss_m c) (g c))) (T_max c)
          \<and> ss_u_scale s' 1 = fdiv (ss_u_actual s' 1) (Mx_max c)
          \<and> ss_u_scale s' 2 = fdiv (ss_u_actual s' 2) (My_max c)
          \<and> ss_u_scale s' 3 = fdiv (ss_u_actual s' 3) (Mz_max c)
          \<and> thrust_sp s' = ss_u_scale s' 0
          \<and> (cywmc_angle_control c \<longrightarrow> att_control s' 0 = ss_u_scale s' 1
                \<and> att_control s' 1 = ss_u_scale s' 2 \<and> att_control s' 2 = ss_u_scale s' 3)"
      unfolding s' using give_output_scaled [OF g, of c] by simp
  qed
  from xs u xn out show ?thesis by blast
qed

theorem state_space_cycle_witness:
  "cywmc_able state_late
   \<and> (modern_control_mission_able config_example \<or> mordern_control_able state_late)
   \<and> give_output_able (sequencer config_example (inputs_example 2000000 (Fin (- 1)))
                         (reset_integral (inputs_example 2000000 (Fin (- 1))) state_late))
   \<and> ss_u_actual (control_attitude_rates config_example (inputs_example 2000000 (Fin (- 1)))
                    state_late) 0 = Fin (- 3)
   \<and> ss_u_scale (control_attitude_rates config_example (inputs_example 2000000 (Fin (- 1)))
                    state_late) 0 = Fin (7 / 20)
   \<and> thrust_sp (control_attitude_rates config_example (inputs_example 2000000 (Fin (- 1)))
                    state_late) = Fin (7 / 20)"
proof -
  let ?i = "inputs_example 2000000 (Fin (- 1))"
  let ?p = "sequencer config_example ?i (reset_integral ?i state_late)"
  let ?s' = "control_attitude_rates config_example ?i state_late"
  have h: "cywmc_able state_late"
      "modern_control_mission_able config_example \<or> mordern_control_able state_late"
    by (simp_all add: state_late_facts config_example_fields)
  have g: "give_output_able ?p" by (rule late_cycle(2))
  note c = state_space_cycle [OF h, of ?i]
  have u: "ss_u_actual ?s' 0 = Fin (- 3)"
    using c late_cycle(5,6) [of 2000000]
    by (simp add: vec_sub_def mat_vec_def fsub_def)
  have "ss_u_scale ?s' 0 = fdiv (fadd (ss_u_actual ?s' 0)
          (fmul (ss_m config_example) (g config_example))) (T_max config_example)"
       "thrust_sp ?s' = ss_u_scale ?s' 0"
    using c g by simp_all
  with u h g show ?thesis by (simp add: config_example_fields)
qed

lemma timeout_freezes_commands:
  assumes "cywmc_able s"
    and "fgt (run_t (init_running_time i (reset_integral i s))) (safety_return_time c)"
  shows "\<not> cywmc_able (control_attitude_rates c i s)"
    and "thrust_sp (run_cycles c (control_attitude_rates c i s) cycles) =
           thrust_sp (control_attitude_rates c i s)"
    and "att_control (run_cycles c (control_attitude_rates c i s) cycles) =
           att_control (control_attitude_rates c i s)"
proof -
  show off: "\<not> cywmc_able (control_attitude_rates c i s)"
    using assms by (simp add: cycle_enabled sequencer_cywmc)
  show "thrust_sp (run_cycles c (control_attitude_rates c i s) cycles) =
           thrust_sp (control_attitude_rates c i s)"
    and "att_control (run_cycles c (control_attitude_rates c i s) cycles) =
           att_control (control_attitude_rates c i s)"
    using run_cycles_disabled [OF off, of c cycles] by simp_all
qed

text \<open>
  C4, at the failing input. The example vehicle is returning at 1 m when the elapsed time
  reaches 101 s, above the ceiling of 100 s. That cycle clears \<^verbatim>\<open>cywmc_able\<close> and still
  computes a thrust demand of 0.35; in every later cycle, whatever it reads, the block is
  skipped, \<^verbatim>\<open>_thrust_sp\<close> stays 0.35, and \<^verbatim>\<open>publish_actuator_controls\<close> puts 0.35 on the
  thrust channel. (\<open>timeout_freezes_commands\<close> above: after a timeout in any state the
  commands stay what that cycle computed.)
\<close>

theorem safety_timeout_leaves_stale_thrust:
  "cywmc_able state_late
   \<and> run_t (control_attitude_rates config_example (inputs_example 102000000 (Fin (- 1))) state_late)
       = Fin 101
   \<and> safety_return_time config_example = Fin 100
   \<and> \<not> cywmc_able (control_attitude_rates config_example
                      (inputs_example 102000000 (Fin (- 1))) state_late)
   \<and> thrust_sp (control_attitude_rates config_example
                  (inputs_example 102000000 (Fin (- 1))) state_late) = Fin (7 / 20)
   \<and> (\<forall>cycles. thrust_sp (run_cycles config_example state_late
                  (inputs_example 102000000 (Fin (- 1)) # cycles)) = Fin (7 / 20))
   \<and> (\<forall>cycles. control (fst (publish_actuator_controls False False (Fin 1)
          (att_control (run_cycles config_example state_late
                  (inputs_example 102000000 (Fin (- 1)) # cycles)))
          (thrust_sp (run_cycles config_example state_late
                  (inputs_example 102000000 (Fin (- 1)) # cycles)))
          (Fin 0) 0 0 actuators_zero)) 3 = Fin (7 / 20))"
proof -
  let ?i = "inputs_example 102000000 (Fin (- 1))"
  let ?s1 = "control_attitude_rates config_example ?i state_late"
  have r: "reset_integral ?i state_late = state_late"
    by (simp add: reset_integral_def inputs_example_def)
  have t: "run_t ?s1 = Fin 101"
    using late_cycle(3) [of 102000000]
    by (simp add: cycle_enabled [OF state_late_facts(1)])
  have off: "\<not> cywmc_able ?s1"
    using late_cycle(3) [of 102000000]
    by (simp add: cycle_enabled [OF state_late_facts(1)] sequencer_cywmc r sequencer_run_t
        config_example_fields fgt_def)
  have th: "thrust_sp ?s1 = Fin (7 / 20)"
    by (rule late_cycle(4))
  have later: "\<forall>cycles. thrust_sp (run_cycles config_example state_late (?i # cycles)) = Fin (7 / 20)"
    using run_cycles_disabled [OF off, of config_example] th by simp
  then have pub: "\<forall>cycles. control (fst (publish_actuator_controls False False (Fin 1)
          (att_control (run_cycles config_example state_late (?i # cycles)))
          (thrust_sp (run_cycles config_example state_late (?i # cycles)))
          (Fin 0) 0 0 actuators_zero)) 3 = Fin (7 / 20)"
    by (simp add: publish_actuator_controls_def Let_def)
  from state_late_facts(1) t off th later pub show ?thesis
    by (simp add: config_example_fields)
qed

end
